theory Spec2Isabelle
  imports Main "HOL-Library.Word"
begin

unbundle bit_operations_syntax

section \<open>Rollback indices in the TPM NVRAM (firmware/lib/rollback_index.c)\<close>

text \<open>
  The file rollback_index.c is embedded function by function. Three things it uses are
  not part of the file and are made explicit:
  \<^item> the constants of rollback_index.h and tss_constants.h (status codes, permission
    bits, NVRAM indices, the layout of the kernel space) are the fields of a record
    \<open>header_constants\<close> that every function takes as its first argument;
  \<^item> the TPM behind the Tlcl functions is a record \<open>'s tpm_device\<close> of functions on an
    arbitrary device state \<open>'s\<close>: each takes the arguments of the C function and returns
    the status, the values stored through the output pointers, and the next device state;
  \<^item> the order of the calls is observable: every Tlcl call is appended, with the status
    it returned, to the \<open>trace\<close> of the machine state.
\<close>

subsection \<open>Data\<close>

type_synonym uint8 = "8 word"
type_synonym uint16 = "16 word"
type_synonym uint32 = "32 word"
type_synonym bytes = "uint8 list"

record header_constants =
  TPM_SUCCESS :: uint32
  TPM_E_BADINDEX :: uint32
  TPM_E_MAXNVWRITES :: uint32
  TPM_E_ALREADY_INITIALIZED :: uint32
  TPM_E_INTERNAL_INCONSISTENCY :: uint32
  TPM_E_MUST_REBOOT :: uint32
  TPM_E_CORRUPTED_STATE :: uint32
  TPM_NV_PER_PPWRITE :: uint32
  TPM_NV_PER_GLOBALLOCK :: uint32
  FIRMWARE_VERSIONS_NV_INDEX :: uint32
  KERNEL_VERSIONS_NV_INDEX :: uint32
  TPM_IS_INITIALIZED_NV_INDEX :: uint32
  KERNEL_VERSIONS_BACKUP_NV_INDEX :: uint32
  KERNEL_MUST_USE_BACKUP_NV_INDEX :: uint32
  DEVELOPER_MODE_NV_INDEX :: uint32
  KERNEL_SPACE_UID :: bytes
  KERNEL_SPACE_UID_SIZE :: nat
  KERNEL_SPACE_INIT_DATA :: bytes
  KERNEL_SPACE_SIZE :: uint32

text \<open>A call of the TPM command library with its arguments by value. A buffer argument
  of TlclWrite is the byte contents of the object the pointer refers to.\<close>

datatype tpm_call =
    Startup
  | ContinueSelfTest
  | AssertPhysicalPresence
  | GetFlags
  | SetEnable
  | SetDeactivated uint8
  | ForceClear
  | SetNvLocked
  | DefineSpace uint32 uint32 uint32
  | Write uint32 bytes uint32
  | Read uint32 uint32
  | GetPermissions uint32
  | SetGlobalLock
  | LockPhysicalPresence

datatype event = LibInit | Call tpm_call uint32

record 's tpm_device =
  dev_LibInit :: "'s \<Rightarrow> 's"
  dev_Startup :: "'s \<Rightarrow> uint32 \<times> 's"
  dev_ContinueSelfTest :: "'s \<Rightarrow> uint32 \<times> 's"
  dev_AssertPhysicalPresence :: "'s \<Rightarrow> uint32 \<times> 's"
  dev_GetFlags :: "'s \<Rightarrow> (uint32 \<times> uint8 \<times> uint8) \<times> 's"
  dev_SetEnable :: "'s \<Rightarrow> uint32 \<times> 's"
  dev_SetDeactivated :: "uint8 \<Rightarrow> 's \<Rightarrow> uint32 \<times> 's"
  dev_ForceClear :: "'s \<Rightarrow> uint32 \<times> 's"
  dev_SetNvLocked :: "'s \<Rightarrow> uint32 \<times> 's"
  dev_DefineSpace :: "uint32 \<Rightarrow> uint32 \<Rightarrow> uint32 \<Rightarrow> 's \<Rightarrow> uint32 \<times> 's"
  dev_Write :: "uint32 \<Rightarrow> bytes \<Rightarrow> uint32 \<Rightarrow> 's \<Rightarrow> uint32 \<times> 's"
  dev_Read :: "uint32 \<Rightarrow> uint32 \<Rightarrow> 's \<Rightarrow> (uint32 \<times> bytes) \<times> 's"
  dev_GetPermissions :: "uint32 \<Rightarrow> 's \<Rightarrow> (uint32 \<times> uint32) \<times> 's"
  dev_SetGlobalLock :: "'s \<Rightarrow> uint32 \<times> 's"
  dev_LockPhysicalPresence :: "'s \<Rightarrow> uint32 \<times> 's"

text \<open>The state of the program: the static variable of the file, the calls made so
  far, and the state of the TPM. A C \<open>int\<close> is held as its 32-bit pattern.\<close>

record 's machine =
  g_rollback_recovery_mode :: uint32
  trace :: "event list"
  tpm :: 's

subsection \<open>Objects in memory\<close>

text \<open>A \<open>uint32_t\<close> variable passed as \<open>(uint8_t*) &x\<close> is its four bytes, least
  significant first. A read into such a variable takes the first four bytes of what the
  device stored in the buffer; bytes the device did not store count as zero.\<close>

definition bytes_of_uint32 :: "uint32 \<Rightarrow> bytes" where
  "bytes_of_uint32 w =
     [ucast w, ucast (drop_bit 8 w), ucast (drop_bit 16 w), ucast (drop_bit 24 w)]"

definition uint32_of_bytes :: "bytes \<Rightarrow> uint32" where
  "uint32_of_bytes bs = foldr (\<lambda>b acc. ucast b OR push_bit 8 acc) (take 4 bs) 0"

text \<open>Modelled from the spec: \<open>Memcmp\<close> of utility.h is not under src/. It is the
  memory compare of the first \<open>n\<close> bytes of two buffers: zero when they are equal, and
  the sign of the first difference otherwise. A buffer that ends before \<open>n\<close> bytes
  differs there from one that does not.\<close>

fun Memcmp :: "bytes \<Rightarrow> bytes \<Rightarrow> nat \<Rightarrow> int" where
  "Memcmp _ _ 0 = 0"
| "Memcmp [] [] (Suc n) = 0"
| "Memcmp [] (b # bs) (Suc n) = -1"
| "Memcmp (a # as) [] (Suc n) = 1"
| "Memcmp (a # as) (b # bs) (Suc n) =
     (if a = b then Memcmp as bs n else if a < b then -1 else 1)"

subsection \<open>The Tlcl calls, recorded in the trace\<close>

definition tlcl_status :: "tpm_call \<Rightarrow> ('s \<Rightarrow> uint32 \<times> 's) \<Rightarrow> 's machine \<Rightarrow> uint32 \<times> 's machine" where
  "tlcl_status call cmd st =
     (case cmd (tpm st) of
        (result, t) \<Rightarrow> (result, st\<lparr>trace := trace st @ [Call call result], tpm := t\<rparr>))"

definition tlcl_output :: "tpm_call \<Rightarrow> ('s \<Rightarrow> (uint32 \<times> 'a) \<times> 's) \<Rightarrow> 's machine \<Rightarrow> (uint32 \<times> 'a) \<times> 's machine" where
  "tlcl_output call cmd st =
     (case cmd (tpm st) of
        ((result, out), t) \<Rightarrow>
          ((result, out), st\<lparr>trace := trace st @ [Call call result], tpm := t\<rparr>))"

definition TlclLibInit :: "'s tpm_device \<Rightarrow> 's machine \<Rightarrow> 's machine" where
  "TlclLibInit dev st = st\<lparr>trace := trace st @ [LibInit], tpm := dev_LibInit dev (tpm st)\<rparr>"

definition TlclStartup :: "'s tpm_device \<Rightarrow> 's machine \<Rightarrow> uint32 \<times> 's machine" where
  "TlclStartup dev = tlcl_status Startup (dev_Startup dev)"

definition TlclContinueSelfTest :: "'s tpm_device \<Rightarrow> 's machine \<Rightarrow> uint32 \<times> 's machine" where
  "TlclContinueSelfTest dev = tlcl_status ContinueSelfTest (dev_ContinueSelfTest dev)"

definition TlclAssertPhysicalPresence :: "'s tpm_device \<Rightarrow> 's machine \<Rightarrow> uint32 \<times> 's machine" where
  "TlclAssertPhysicalPresence dev =
     tlcl_status AssertPhysicalPresence (dev_AssertPhysicalPresence dev)"

definition TlclGetFlags :: "'s tpm_device \<Rightarrow> 's machine \<Rightarrow> (uint32 \<times> uint8 \<times> uint8) \<times> 's machine" where
  "TlclGetFlags dev = tlcl_output GetFlags (dev_GetFlags dev)"

definition TlclSetEnable :: "'s tpm_device \<Rightarrow> 's machine \<Rightarrow> uint32 \<times> 's machine" where
  "TlclSetEnable dev = tlcl_status SetEnable (dev_SetEnable dev)"

definition TlclSetDeactivated :: "'s tpm_device \<Rightarrow> uint8 \<Rightarrow> 's machine \<Rightarrow> uint32 \<times> 's machine" where
  "TlclSetDeactivated dev flag = tlcl_status (SetDeactivated flag) (dev_SetDeactivated dev flag)"

definition TlclForceClear :: "'s tpm_device \<Rightarrow> 's machine \<Rightarrow> uint32 \<times> 's machine" where
  "TlclForceClear dev = tlcl_status ForceClear (dev_ForceClear dev)"

definition TlclSetNvLocked :: "'s tpm_device \<Rightarrow> 's machine \<Rightarrow> uint32 \<times> 's machine" where
  "TlclSetNvLocked dev = tlcl_status SetNvLocked (dev_SetNvLocked dev)"

definition TlclDefineSpace :: "'s tpm_device \<Rightarrow> uint32 \<Rightarrow> uint32 \<Rightarrow> uint32 \<Rightarrow> 's machine \<Rightarrow> uint32 \<times> 's machine" where
  "TlclDefineSpace dev index perm size' =
     tlcl_status (DefineSpace index perm size') (dev_DefineSpace dev index perm size')"

definition TlclWrite :: "'s tpm_device \<Rightarrow> uint32 \<Rightarrow> bytes \<Rightarrow> uint32 \<Rightarrow> 's machine \<Rightarrow> uint32 \<times> 's machine" where
  "TlclWrite dev index data length' =
     tlcl_status (Write index data length') (dev_Write dev index data length')"

definition TlclRead :: "'s tpm_device \<Rightarrow> uint32 \<Rightarrow> uint32 \<Rightarrow> 's machine \<Rightarrow> (uint32 \<times> bytes) \<times> 's machine" where
  "TlclRead dev index length' =
     tlcl_output (Read index length') (dev_Read dev index length')"

definition TlclGetPermissions :: "'s tpm_device \<Rightarrow> uint32 \<Rightarrow> 's machine \<Rightarrow> (uint32 \<times> uint32) \<times> 's machine" where
  "TlclGetPermissions dev index =
     tlcl_output (GetPermissions index) (dev_GetPermissions dev index)"

definition TlclSetGlobalLock :: "'s tpm_device \<Rightarrow> 's machine \<Rightarrow> uint32 \<times> 's machine" where
  "TlclSetGlobalLock dev = tlcl_status SetGlobalLock (dev_SetGlobalLock dev)"

definition TlclLockPhysicalPresence :: "'s tpm_device \<Rightarrow> 's machine \<Rightarrow> uint32 \<times> 's machine" where
  "TlclLockPhysicalPresence dev =
     tlcl_status LockPhysicalPresence (dev_LockPhysicalPresence dev)"

subsection \<open>The functions of rollback\_index.c\<close>

text \<open>The macro \<open>RETURN_ON_FAILURE(tpm_command)\<close>, with the statements that follow it
  as \<open>rest\<close>. The second form is for a command that also stores through output
  pointers; the stored values are used only after the check, so they are handed to
  \<open>rest\<close>.\<close>

definition RETURN_ON_FAILURE :: "header_constants \<Rightarrow> ('m \<Rightarrow> uint32 \<times> 'm) \<Rightarrow> ('m \<Rightarrow> uint32 \<times> 'm) \<Rightarrow> 'm \<Rightarrow> uint32 \<times> 'm" where
  "RETURN_ON_FAILURE c tpm_command rest st =
     (case tpm_command st of
        (result, st') \<Rightarrow> if result \<noteq> TPM_SUCCESS c then (result, st') else rest st')"

definition RETURN_ON_FAILURE_out :: "header_constants \<Rightarrow> ('m \<Rightarrow> (uint32 \<times> 'a) \<times> 'm) \<Rightarrow> ('a \<Rightarrow> 'm \<Rightarrow> uint32 \<times> 'm) \<Rightarrow> 'm \<Rightarrow> uint32 \<times> 'm" where
  "RETURN_ON_FAILURE_out c tpm_command rest st =
     (case tpm_command st of
        ((result, out), st') \<Rightarrow>
          if result \<noteq> TPM_SUCCESS c then (result, st') else rest out st')"

definition TPMClearAndReenable :: "header_constants \<Rightarrow> 's tpm_device \<Rightarrow> 's machine \<Rightarrow> uint32 \<times> 's machine" where
  "TPMClearAndReenable c dev =
     RETURN_ON_FAILURE c (TlclForceClear dev)
    (RETURN_ON_FAILURE c (TlclSetEnable dev)
    (RETURN_ON_FAILURE c (TlclSetDeactivated dev 0)
    (\<lambda>st. (TPM_SUCCESS c, st))))"

definition SafeWrite :: "header_constants \<Rightarrow> 's tpm_device \<Rightarrow> uint32 \<Rightarrow> bytes \<Rightarrow> uint32 \<Rightarrow> 's machine \<Rightarrow> uint32 \<times> 's machine" where
  "SafeWrite c dev index data length' st =
     (case TlclWrite dev index data length' st of
        (result, st') \<Rightarrow>
          if result = TPM_E_MAXNVWRITES c then
            RETURN_ON_FAILURE c (TPMClearAndReenable c dev)
              (TlclWrite dev index data length') st'
          else (result, st'))"

definition InitializeKernelVersionsSpaces :: "header_constants \<Rightarrow> 's tpm_device \<Rightarrow> 's machine \<Rightarrow> uint32 \<times> 's machine" where
  "InitializeKernelVersionsSpaces c dev =
     RETURN_ON_FAILURE c (TlclDefineSpace dev (KERNEL_VERSIONS_NV_INDEX c)
                            (TPM_NV_PER_PPWRITE c) (KERNEL_SPACE_SIZE c))
    (RETURN_ON_FAILURE c (SafeWrite c dev (KERNEL_VERSIONS_NV_INDEX c)
                            (KERNEL_SPACE_INIT_DATA c) (KERNEL_SPACE_SIZE c))
    (\<lambda>st. (TPM_SUCCESS c, st)))"

text \<open>\<open>initialized\<close> is the value of \<open>*initialized\<close> at the call; the second
  component of the result is its value at the return.\<close>

definition GetSpacesInitialized :: "header_constants \<Rightarrow> 's tpm_device \<Rightarrow> uint32 \<Rightarrow> 's machine \<Rightarrow> (uint32 \<times> uint32) \<times> 's machine" where
  "GetSpacesInitialized c dev initialized st =
     (case TlclRead dev (TPM_IS_INITIALIZED_NV_INDEX c) 4 st of
        ((result, space_holder), st') \<Rightarrow>
          if result = TPM_SUCCESS c then ((result, 1), st')
          else if result = TPM_E_BADINDEX c then ((TPM_SUCCESS c, 0), st')
          else ((result, initialized), st'))"

definition InitializeSpaces :: "header_constants \<Rightarrow> 's tpm_device \<Rightarrow> 's machine \<Rightarrow> uint32 \<times> 's machine" where
  "InitializeSpaces c dev =
     (let zero = 0;
          firmware_perm = TPM_NV_PER_GLOBALLOCK c OR TPM_NV_PER_PPWRITE c
      in
     RETURN_ON_FAILURE c (TlclSetNvLocked dev)
    (RETURN_ON_FAILURE c (TlclDefineSpace dev (FIRMWARE_VERSIONS_NV_INDEX c) firmware_perm 4)
    (RETURN_ON_FAILURE c (SafeWrite c dev (FIRMWARE_VERSIONS_NV_INDEX c) (bytes_of_uint32 zero) 4)
    (RETURN_ON_FAILURE c (InitializeKernelVersionsSpaces c dev)
    (RETURN_ON_FAILURE c (TlclDefineSpace dev (KERNEL_VERSIONS_BACKUP_NV_INDEX c) firmware_perm 4)
    (RETURN_ON_FAILURE c (SafeWrite c dev (KERNEL_VERSIONS_BACKUP_NV_INDEX c) (bytes_of_uint32 zero) 4)
    (RETURN_ON_FAILURE c (TlclDefineSpace dev (KERNEL_MUST_USE_BACKUP_NV_INDEX c) firmware_perm 4)
    (RETURN_ON_FAILURE c (SafeWrite c dev (KERNEL_MUST_USE_BACKUP_NV_INDEX c) (bytes_of_uint32 zero) 4)
    (RETURN_ON_FAILURE c (TlclDefineSpace dev (DEVELOPER_MODE_NV_INDEX c) firmware_perm 4)
    (RETURN_ON_FAILURE c (SafeWrite c dev (DEVELOPER_MODE_NV_INDEX c) (bytes_of_uint32 zero) 4)
    (RETURN_ON_FAILURE c (TlclDefineSpace dev (TPM_IS_INITIALIZED_NV_INDEX c) firmware_perm 4)
    (\<lambda>st. (TPM_SUCCESS c, st)))))))))))))"

definition SetDistrustKernelSpaceAtNextBoot :: "header_constants \<Rightarrow> 's tpm_device \<Rightarrow> uint32 \<Rightarrow> 's machine \<Rightarrow> uint32 \<times> 's machine" where
  "SetDistrustKernelSpaceAtNextBoot c dev distrust =
     RETURN_ON_FAILURE_out c (TlclRead dev (KERNEL_MUST_USE_BACKUP_NV_INDEX c) 4)
       (\<lambda>buf. let must_use_backup = uint32_of_bytes buf in
          if must_use_backup \<noteq> distrust then
            RETURN_ON_FAILURE c (SafeWrite c dev (KERNEL_MUST_USE_BACKUP_NV_INDEX c)
                                   (bytes_of_uint32 distrust) 4)
              (\<lambda>st. (TPM_SUCCESS c, st))
          else (\<lambda>st. (TPM_SUCCESS c, st)))"

text \<open>In \<open>RecoverKernelSpace\<close> the condition of the first \<open>if\<close> is
  \<open>perms != TPM_NV_PER_PPWRITE || !Memcmp(buffer + sizeof(uint32_t), KERNEL_SPACE_UID,
  KERNEL_SPACE_UID_SIZE)\<close>: \<open>!x\<close> is \<open>x = 0\<close>, and \<open>buffer + 4\<close> is the buffer without
  its first four bytes. The last write has the length argument 0.\<close>

definition RecoverKernelSpace :: "header_constants \<Rightarrow> 's tpm_device \<Rightarrow> 's machine \<Rightarrow> uint32 \<times> 's machine" where
  "RecoverKernelSpace c dev =
     (let zero = 0 in
     RETURN_ON_FAILURE_out c (TlclRead dev (KERNEL_MUST_USE_BACKUP_NV_INDEX c) 4)
       (\<lambda>buf0. let must_use_backup = uint32_of_bytes buf0 in
     RETURN_ON_FAILURE_out c (TlclRead dev (KERNEL_VERSIONS_NV_INDEX c) (KERNEL_SPACE_SIZE c))
       (\<lambda>buffer.
     RETURN_ON_FAILURE_out c (TlclGetPermissions dev (KERNEL_VERSIONS_NV_INDEX c))
       (\<lambda>perms.
          if perms \<noteq> TPM_NV_PER_PPWRITE c \<or>
             Memcmp (drop 4 buffer) (KERNEL_SPACE_UID c) (KERNEL_SPACE_UID_SIZE c) = 0
          then (\<lambda>st. (TPM_E_CORRUPTED_STATE c, st))
          else if must_use_backup \<noteq> 0 then
            RETURN_ON_FAILURE_out c (TlclRead dev (KERNEL_VERSIONS_BACKUP_NV_INDEX c) 4)
              (\<lambda>buf1. let backup_combined_versions = uint32_of_bytes buf1 in
            RETURN_ON_FAILURE c (SafeWrite c dev (KERNEL_VERSIONS_NV_INDEX c)
                                   (bytes_of_uint32 backup_combined_versions) 4)
           (RETURN_ON_FAILURE c (SafeWrite c dev (KERNEL_MUST_USE_BACKUP_NV_INDEX c)
                                   (bytes_of_uint32 zero) 0)
           (\<lambda>st. (TPM_SUCCESS c, st))))
          else (\<lambda>st. (TPM_SUCCESS c, st))))))"

definition BackupKernelSpace :: "header_constants \<Rightarrow> 's tpm_device \<Rightarrow> 's machine \<Rightarrow> uint32 \<times> 's machine" where
  "BackupKernelSpace c dev =
     RETURN_ON_FAILURE_out c (TlclRead dev (KERNEL_VERSIONS_NV_INDEX c) 4)
       (\<lambda>buf0. let kernel_versions = uint32_of_bytes buf0 in
     RETURN_ON_FAILURE_out c (TlclRead dev (KERNEL_VERSIONS_BACKUP_NV_INDEX c) 4)
       (\<lambda>buf1. let backup_versions = uint32_of_bytes buf1 in
          if kernel_versions = backup_versions then (\<lambda>st. (TPM_SUCCESS c, st))
          else if kernel_versions < backup_versions then
            (\<lambda>st. (TPM_E_INTERNAL_INCONSISTENCY c, st))
          else
            RETURN_ON_FAILURE c (SafeWrite c dev (KERNEL_VERSIONS_BACKUP_NV_INDEX c)
                                   (bytes_of_uint32 kernel_versions) 4)
              (\<lambda>st. (TPM_SUCCESS c, st))))"

definition CheckDeveloperModeTransition :: "header_constants \<Rightarrow> 's tpm_device \<Rightarrow> uint32 \<Rightarrow> 's machine \<Rightarrow> uint32 \<times> 's machine" where
  "CheckDeveloperModeTransition c dev current_developer =
     RETURN_ON_FAILURE_out c (TlclRead dev (DEVELOPER_MODE_NV_INDEX c) 4)
       (\<lambda>buf. let past_developer = uint32_of_bytes buf in
          if past_developer \<noteq> current_developer then
            RETURN_ON_FAILURE c (TPMClearAndReenable c dev)
           (RETURN_ON_FAILURE c (SafeWrite c dev (DEVELOPER_MODE_NV_INDEX c)
                                   (bytes_of_uint32 current_developer) 4)
           (\<lambda>st. (TPM_SUCCESS c, st)))
          else (\<lambda>st. (TPM_SUCCESS c, st)))"

text \<open>\<open>SetupTPM\<close> in two parts: \<open>SetupTPM_spaces\<close> is the function from the call of
  \<open>RecoverKernelSpace\<close> (line 248) to its end, \<open>SetupTPM_finish\<close> within it the
  statements from the call of \<open>BackupKernelSpace\<close> on.\<close>

definition SetupTPM_finish :: "header_constants \<Rightarrow> 's tpm_device \<Rightarrow> uint32 \<Rightarrow> uint32 \<Rightarrow> 's machine \<Rightarrow> uint32 \<times> 's machine" where
  "SetupTPM_finish c dev recovery_mode developer_mode =
     RETURN_ON_FAILURE c (BackupKernelSpace c dev)
    (RETURN_ON_FAILURE c (SetDistrustKernelSpaceAtNextBoot c dev recovery_mode)
    (RETURN_ON_FAILURE c (CheckDeveloperModeTransition c dev developer_mode)
    (\<lambda>st. (TPM_SUCCESS c,
            if recovery_mode \<noteq> 0 then st\<lparr>g_rollback_recovery_mode := 1\<rparr> else st))))"

definition SetupTPM_spaces :: "header_constants \<Rightarrow> 's tpm_device \<Rightarrow> uint32 \<Rightarrow> uint32 \<Rightarrow> 's machine \<Rightarrow> uint32 \<times> 's machine" where
  "SetupTPM_spaces c dev recovery_mode developer_mode st =
     (case RecoverKernelSpace c dev st of
        (result, st') \<Rightarrow>
          if result \<noteq> TPM_SUCCESS c then
            (let initialized = 0 in
             RETURN_ON_FAILURE_out c (GetSpacesInitialized c dev initialized)
               (\<lambda>initialized.
                  if initialized \<noteq> 0 then (\<lambda>st. (TPM_E_ALREADY_INITIALIZED c, st))
                  else
                    RETURN_ON_FAILURE c (InitializeSpaces c dev)
                   (RETURN_ON_FAILURE c (RecoverKernelSpace c dev)
                   (SetupTPM_finish c dev recovery_mode developer_mode))) st')
          else SetupTPM_finish c dev recovery_mode developer_mode st')"

definition SetupTPM :: "header_constants \<Rightarrow> 's tpm_device \<Rightarrow> uint32 \<Rightarrow> uint32 \<Rightarrow> 's machine \<Rightarrow> uint32 \<times> 's machine" where
  "SetupTPM c dev recovery_mode developer_mode st =
    (RETURN_ON_FAILURE c (TlclStartup dev)
    (RETURN_ON_FAILURE c (TlclContinueSelfTest dev)
    (RETURN_ON_FAILURE c (TlclAssertPhysicalPresence dev)
    (RETURN_ON_FAILURE_out c (TlclGetFlags dev)
       (\<lambda>(disable, deactivated).
          if disable \<noteq> 0 \<or> deactivated \<noteq> 0 then
            RETURN_ON_FAILURE c (TlclSetEnable dev)
           (RETURN_ON_FAILURE c (TlclSetDeactivated dev 0)
           (\<lambda>st. (TPM_E_MUST_REBOOT c, st)))
          else SetupTPM_spaces c dev recovery_mode developer_mode)))))
     (TlclLibInit dev st)"

definition RollbackFirmwareSetup :: "header_constants \<Rightarrow> 's tpm_device \<Rightarrow> uint32 \<Rightarrow> 's machine \<Rightarrow> uint32 \<times> 's machine" where
  "RollbackFirmwareSetup c dev developer_mode = SetupTPM c dev 0 developer_mode"

text \<open>The two read functions take the values of \<open>*key_version\<close> and \<open>*version\<close> at
  the call and return, after the status, their values at the return.\<close>

definition RollbackFirmwareRead :: "header_constants \<Rightarrow> 's tpm_device \<Rightarrow> uint16 \<Rightarrow> uint16 \<Rightarrow> 's machine \<Rightarrow> (uint32 \<times> uint16 \<times> uint16) \<times> 's machine" where
  "RollbackFirmwareRead c dev key_version version st =
     (case TlclRead dev (FIRMWARE_VERSIONS_NV_INDEX c) 4 st of
        ((result, buf), st') \<Rightarrow>
          if result \<noteq> TPM_SUCCESS c then ((result, key_version, version), st')
          else
            (let firmware_versions = uint32_of_bytes buf in
             ((TPM_SUCCESS c,
               ucast (drop_bit 16 firmware_versions),
               ucast (firmware_versions AND 0xffff)), st')))"

text \<open>\<open>(key_version << 16) & version\<close>: both operands are promoted to \<open>int\<close>, which has
  32 bits; the result is converted to \<open>uint32_t\<close>. A key version with its top bit set
  is shifted into the sign bit; the model keeps the 32-bit pattern, as the compiled code
  does.\<close>

definition combined_version :: "uint16 \<Rightarrow> uint16 \<Rightarrow> uint32" where
  "combined_version key_version version =
     push_bit 16 (ucast key_version) AND ucast version"

definition RollbackFirmwareWrite :: "header_constants \<Rightarrow> 's tpm_device \<Rightarrow> uint16 \<Rightarrow> uint16 \<Rightarrow> 's machine \<Rightarrow> uint32 \<times> 's machine" where
  "RollbackFirmwareWrite c dev key_version version =
     SafeWrite c dev (FIRMWARE_VERSIONS_NV_INDEX c)
       (bytes_of_uint32 (combined_version key_version version)) 4"

definition RollbackFirmwareLock :: "'s tpm_device \<Rightarrow> 's machine \<Rightarrow> uint32 \<times> 's machine" where
  "RollbackFirmwareLock dev = TlclSetGlobalLock dev"

definition RollbackKernelRecovery :: "header_constants \<Rightarrow> 's tpm_device \<Rightarrow> uint32 \<Rightarrow> 's machine \<Rightarrow> uint32 \<times> 's machine" where
  "RollbackKernelRecovery c dev developer_mode st =
     (case SetupTPM c dev 1 developer_mode st of
        (ignored, st') \<Rightarrow>
          if developer_mode = 0 then
            RETURN_ON_FAILURE c (TlclSetGlobalLock dev) (\<lambda>st. (TPM_SUCCESS c, st)) st'
          else (TPM_SUCCESS c, st'))"

definition RollbackKernelRead :: "header_constants \<Rightarrow> 's tpm_device \<Rightarrow> uint16 \<Rightarrow> uint16 \<Rightarrow> 's machine \<Rightarrow> (uint32 \<times> uint16 \<times> uint16) \<times> 's machine" where
  "RollbackKernelRead c dev key_version version st =
     (if g_rollback_recovery_mode st \<noteq> 0 then ((TPM_SUCCESS c, 0, 0), st)
      else
        (case TlclRead dev (KERNEL_VERSIONS_NV_INDEX c) 4 st of
           ((result, buf), st') \<Rightarrow>
             if result \<noteq> TPM_SUCCESS c then ((result, key_version, version), st')
             else
               (let kernel_versions = uint32_of_bytes buf in
                ((TPM_SUCCESS c,
                  ucast (drop_bit 16 kernel_versions),
                  ucast (kernel_versions AND 0xffff)), st'))))"

text \<open>In the next two functions \<open>!g_rollback_recovery_mode\<close> is
  \<open>g_rollback_recovery_mode = 0\<close>.\<close>

definition RollbackKernelWrite :: "header_constants \<Rightarrow> 's tpm_device \<Rightarrow> uint16 \<Rightarrow> uint16 \<Rightarrow> 's machine \<Rightarrow> uint32 \<times> 's machine" where
  "RollbackKernelWrite c dev key_version version st =
     (if g_rollback_recovery_mode st = 0 then
        SafeWrite c dev (KERNEL_VERSIONS_NV_INDEX c)
          (bytes_of_uint32 (combined_version key_version version)) 4 st
      else (TPM_SUCCESS c, st))"

definition RollbackKernelLock :: "header_constants \<Rightarrow> 's tpm_device \<Rightarrow> 's machine \<Rightarrow> uint32 \<times> 's machine" where
  "RollbackKernelLock c dev st =
     (if g_rollback_recovery_mode st = 0 then TlclLockPhysicalPresence dev st
      else (TPM_SUCCESS c, st))"

subsection \<open>A TPM to run the functions on\<close>

text \<open>An instance of the constants: success is zero, the two TPM error codes and the
  two permission bits have their values of the TPM 1.2 specification, the four codes of
  the library are distinct values above them, and the kernel space holds a four-byte
  counter followed by a four-byte tag.\<close>

definition vboot :: header_constants where
  "vboot = \<lparr>
     TPM_SUCCESS = 0,
     TPM_E_BADINDEX = 0x2,
     TPM_E_MAXNVWRITES = 0x48,
     TPM_E_ALREADY_INITIALIZED = 0x5000,
     TPM_E_INTERNAL_INCONSISTENCY = 0x5001,
     TPM_E_MUST_REBOOT = 0x5002,
     TPM_E_CORRUPTED_STATE = 0x5003,
     TPM_NV_PER_PPWRITE = 0x1,
     TPM_NV_PER_GLOBALLOCK = 0x8000,
     FIRMWARE_VERSIONS_NV_INDEX = 0x1001,
     KERNEL_VERSIONS_NV_INDEX = 0x1002,
     TPM_IS_INITIALIZED_NV_INDEX = 0x1003,
     KERNEL_VERSIONS_BACKUP_NV_INDEX = 0x1004,
     KERNEL_MUST_USE_BACKUP_NV_INDEX = 0x1005,
     DEVELOPER_MODE_NV_INDEX = 0x1006,
     KERNEL_SPACE_UID = [0x47, 0x52, 0x57, 0x4C],
     KERNEL_SPACE_UID_SIZE = 4,
     KERNEL_SPACE_INIT_DATA = [0, 0, 0, 0, 0x47, 0x52, 0x57, 0x4C],
     KERNEL_SPACE_SIZE = 8 \<rparr>"

text \<open>A simulated TPM: the defined NVRAM spaces with their permissions and contents,
  the two flags, and a list of status codes to inject. Every command first takes the
  next injected code (success when the list is empty) and fails with it, changing
  nothing, when it is not success. Otherwise a read or write of an undefined space
  fails with the bad-index code, a write replaces the first \<open>length\<close> bytes of the
  space, and a read returns the first \<open>length\<close> bytes.\<close>

record sim =
  nv :: "(uint32 \<times> uint32 \<times> bytes) list"
  flag_disable :: uint8
  flag_deactivated :: uint8
  faults :: "uint32 list"

definition sim_fault :: "header_constants \<Rightarrow> sim \<Rightarrow> uint32 \<times> sim" where
  "sim_fault c s =
     (case faults s of [] \<Rightarrow> (TPM_SUCCESS c, s) | f # fs \<Rightarrow> (f, s\<lparr>faults := fs\<rparr>))"

fun nv_store :: "uint32 \<Rightarrow> uint32 \<times> bytes \<Rightarrow> (uint32 \<times> uint32 \<times> bytes) list \<Rightarrow> (uint32 \<times> uint32 \<times> bytes) list" where
  "nv_store k v [] = [(k, v)]"
| "nv_store k v ((k', v') # ps) = (if k = k' then (k, v) # ps else (k', v') # nv_store k v ps)"

definition sim_GetFlags :: "header_constants \<Rightarrow> sim \<Rightarrow> (uint32 \<times> uint8 \<times> uint8) \<times> sim" where
  "sim_GetFlags c s =
     (case sim_fault c s of
        (f, s') \<Rightarrow>
          if f \<noteq> TPM_SUCCESS c then ((f, 0, 0), s')
          else ((TPM_SUCCESS c, flag_disable s', flag_deactivated s'), s'))"

definition sim_DefineSpace :: "header_constants \<Rightarrow> uint32 \<Rightarrow> uint32 \<Rightarrow> uint32 \<Rightarrow> sim \<Rightarrow> uint32 \<times> sim" where
  "sim_DefineSpace c index perm size' s =
     (case sim_fault c s of
        (f, s') \<Rightarrow>
          if f \<noteq> TPM_SUCCESS c then (f, s')
          else (TPM_SUCCESS c,
                s'\<lparr>nv := nv_store index (perm, replicate (unat size') 0) (nv s')\<rparr>))"

definition sim_Write :: "header_constants \<Rightarrow> uint32 \<Rightarrow> bytes \<Rightarrow> uint32 \<Rightarrow> sim \<Rightarrow> uint32 \<times> sim" where
  "sim_Write c index data length' s =
     (case sim_fault c s of
        (f, s') \<Rightarrow>
          if f \<noteq> TPM_SUCCESS c then (f, s')
          else
            (case map_of (nv s') index of
               None \<Rightarrow> (TPM_E_BADINDEX c, s')
             | Some (perm, old) \<Rightarrow>
                 (TPM_SUCCESS c,
                  s'\<lparr>nv := nv_store index
                     (perm, take (unat length') data @ drop (unat length') old) (nv s')\<rparr>)))"

definition sim_Read :: "header_constants \<Rightarrow> uint32 \<Rightarrow> uint32 \<Rightarrow> sim \<Rightarrow> (uint32 \<times> bytes) \<times> sim" where
  "sim_Read c index length' s =
     (case sim_fault c s of
        (f, s') \<Rightarrow>
          if f \<noteq> TPM_SUCCESS c then ((f, []), s')
          else
            (case map_of (nv s') index of
               None \<Rightarrow> ((TPM_E_BADINDEX c, []), s')
             | Some (perm, old) \<Rightarrow> ((TPM_SUCCESS c, take (unat length') old), s')))"

definition sim_GetPermissions :: "header_constants \<Rightarrow> uint32 \<Rightarrow> sim \<Rightarrow> (uint32 \<times> uint32) \<times> sim" where
  "sim_GetPermissions c index s =
     (case sim_fault c s of
        (f, s') \<Rightarrow>
          if f \<noteq> TPM_SUCCESS c then ((f, 0), s')
          else
            (case map_of (nv s') index of
               None \<Rightarrow> ((TPM_E_BADINDEX c, 0), s')
             | Some (perm, old) \<Rightarrow> ((TPM_SUCCESS c, perm), s')))"

definition sim_device :: "header_constants \<Rightarrow> sim tpm_device" where
  "sim_device c = \<lparr>
     dev_LibInit = (\<lambda>s. s),
     dev_Startup = sim_fault c,
     dev_ContinueSelfTest = sim_fault c,
     dev_AssertPhysicalPresence = sim_fault c,
     dev_GetFlags = sim_GetFlags c,
     dev_SetEnable = sim_fault c,
     dev_SetDeactivated = (\<lambda>flag. sim_fault c),
     dev_ForceClear = sim_fault c,
     dev_SetNvLocked = sim_fault c,
     dev_DefineSpace = sim_DefineSpace c,
     dev_Write = sim_Write c,
     dev_Read = sim_Read c,
     dev_GetPermissions = sim_GetPermissions c,
     dev_SetGlobalLock = sim_fault c,
     dev_LockPhysicalPresence = sim_fault c \<rparr>"

text \<open>The machine at the start of a boot with a given TPM, and a TPM whose six spaces
  hold the given kernel space contents, backup counter and distrust flag.\<close>

definition boot :: "'s \<Rightarrow> 's machine" where
  "boot t = \<lparr> g_rollback_recovery_mode = 0, trace = [], tpm = t \<rparr>"

definition provisioned :: "bytes \<Rightarrow> bytes \<Rightarrow> bytes \<Rightarrow> uint32 list \<Rightarrow> sim" where
  "provisioned kernel_space backup must_use_backup fs = \<lparr>
     nv = [(0x1001, 0x8001, [0, 0, 0, 0]),
           (0x1002, 0x1, kernel_space),
           (0x1004, 0x8001, backup),
           (0x1005, 0x8001, must_use_backup),
           (0x1006, 0x8001, [0, 0, 0, 0]),
           (0x1003, 0x8001, [0, 0, 0, 0])],
     flag_disable = 0,
     flag_deactivated = 0,
     faults = fs \<rparr>"

text \<open>An unprovisioned TPM (no space defined), and the contents of a space of the
  simulated TPM (empty when the space is not defined).\<close>

definition unprovisioned :: "uint32 list \<Rightarrow> sim" where
  "unprovisioned fs = \<lparr> nv = [], flag_disable = 0, flag_deactivated = 0, faults = fs \<rparr>"

definition sim_contents :: "sim \<Rightarrow> uint32 \<Rightarrow> bytes" where
  "sim_contents s index = (case map_of (nv s) index of None \<Rightarrow> [] | Some (perm, old) \<Rightarrow> old)"

subsection \<open>Notions used in the statements\<close>

text \<open>\<open>InitializeSpaces_provision\<close> is \<open>InitializeSpaces\<close> without its last
  statement, the DefineSpace of \<open>TPM_IS_INITIALIZED_NV_INDEX\<close> (lines 86 to 110 of the
  file); \<open>InitializeSpaces_split\<close> below shows that \<open>InitializeSpaces\<close> is this part
  followed by that statement.\<close>

definition InitializeSpaces_provision :: "header_constants \<Rightarrow> 's tpm_device \<Rightarrow> 's machine \<Rightarrow> uint32 \<times> 's machine" where
  "InitializeSpaces_provision c dev =
     (let zero = 0;
          firmware_perm = TPM_NV_PER_GLOBALLOCK c OR TPM_NV_PER_PPWRITE c
      in
     RETURN_ON_FAILURE c (TlclSetNvLocked dev)
    (RETURN_ON_FAILURE c (TlclDefineSpace dev (FIRMWARE_VERSIONS_NV_INDEX c) firmware_perm 4)
    (RETURN_ON_FAILURE c (SafeWrite c dev (FIRMWARE_VERSIONS_NV_INDEX c) (bytes_of_uint32 zero) 4)
    (RETURN_ON_FAILURE c (InitializeKernelVersionsSpaces c dev)
    (RETURN_ON_FAILURE c (TlclDefineSpace dev (KERNEL_VERSIONS_BACKUP_NV_INDEX c) firmware_perm 4)
    (RETURN_ON_FAILURE c (SafeWrite c dev (KERNEL_VERSIONS_BACKUP_NV_INDEX c) (bytes_of_uint32 zero) 4)
    (RETURN_ON_FAILURE c (TlclDefineSpace dev (KERNEL_MUST_USE_BACKUP_NV_INDEX c) firmware_perm 4)
    (RETURN_ON_FAILURE c (SafeWrite c dev (KERNEL_MUST_USE_BACKUP_NV_INDEX c) (bytes_of_uint32 zero) 4)
    (RETURN_ON_FAILURE c (TlclDefineSpace dev (DEVELOPER_MODE_NV_INDEX c) firmware_perm 4)
    (RETURN_ON_FAILURE c (SafeWrite c dev (DEVELOPER_MODE_NV_INDEX c) (bytes_of_uint32 zero) 4)
    (\<lambda>st. (TPM_SUCCESS c, st))))))))))))"

text \<open>A function changes the recovery flag at most by setting it to 1, and only when
  \<open>may\<close> holds.\<close>

definition flag_only_set :: "bool \<Rightarrow> ('s machine \<Rightarrow> 'a \<times> 's machine) \<Rightarrow> bool" where
  "flag_only_set may f \<longleftrightarrow>
     (\<forall>st. g_rollback_recovery_mode (snd (f st)) = g_rollback_recovery_mode st \<or>
           may \<and> g_rollback_recovery_mode (snd (f st)) = 1)"

text \<open>A function only appends to the trace, and every event it appends satisfies
  \<open>P\<close>.\<close>

definition emits :: "(event \<Rightarrow> bool) \<Rightarrow> ('s machine \<Rightarrow> 'a \<times> 's machine) \<Rightarrow> bool" where
  "emits P f \<longleftrightarrow> (\<forall>st. \<exists>evs. trace (snd (f st)) = trace st @ evs \<and> list_all P evs)"

text \<open>In a list of events, a space was defined and then written: after the first
  successful DefineSpace of the space with the given permissions and size there is a
  successful write of the given data to it.\<close>

definition defined_and_written :: "header_constants \<Rightarrow> uint32 \<Rightarrow> uint32 \<Rightarrow> bytes \<Rightarrow> uint32 \<Rightarrow> event list \<Rightarrow> bool" where
  "defined_and_written c index perm data size' evs \<longleftrightarrow>
     Call (Write index data size') (TPM_SUCCESS c)
       \<in> set (dropWhile (\<lambda>e. e \<noteq> Call (DefineSpace index perm size') (TPM_SUCCESS c)) evs)"

text \<open>A device whose NVRAM behaves as a store, seen through \<open>contents\<close>: a read
  changes nothing and, when it succeeds, returns the first \<open>length\<close> bytes of the
  space; a write that succeeds replaces the first \<open>length\<close> bytes of the space and
  nothing else, a write that fails changes nothing; the commands of the clear sequence
  leave the spaces as they are.\<close>

definition nv_faithful :: "header_constants \<Rightarrow> 's tpm_device \<Rightarrow> ('s \<Rightarrow> uint32 \<Rightarrow> bytes) \<Rightarrow> bool" where
  "nv_faithful c dev contents \<longleftrightarrow>
     (\<forall>i n s. contents (snd (dev_Read dev i n s)) = contents s \<and>
        (fst (fst (dev_Read dev i n s)) = TPM_SUCCESS c \<longrightarrow>
           snd (fst (dev_Read dev i n s)) = take (unat n) (contents s i))) \<and>
     (\<forall>i d n s. contents (snd (dev_Write dev i d n s)) =
        (if fst (dev_Write dev i d n s) = TPM_SUCCESS c
         then (contents s)(i := take (unat n) d @ drop (unat n) (contents s i))
         else contents s)) \<and>
     (\<forall>s. contents (snd (dev_ForceClear dev s)) = contents s) \<and>
     (\<forall>s. contents (snd (dev_SetEnable dev s)) = contents s) \<and>
     (\<forall>flag s. contents (snd (dev_SetDeactivated dev flag s)) = contents s)"

section \<open>Properties\<close>

subsection \<open>Unfolding and evaluation\<close>

lemmas tlcl_defs =
  tlcl_status_def tlcl_output_def TlclLibInit_def TlclStartup_def TlclContinueSelfTest_def
  TlclAssertPhysicalPresence_def TlclGetFlags_def TlclSetEnable_def TlclSetDeactivated_def
  TlclForceClear_def TlclSetNvLocked_def TlclDefineSpace_def TlclWrite_def TlclRead_def
  TlclGetPermissions_def TlclSetGlobalLock_def TlclLockPhysicalPresence_def

lemmas sim_defs =
  sim_device_def sim_fault_def sim_GetFlags_def sim_DefineSpace_def sim_Write_def
  sim_Read_def sim_GetPermissions_def vboot_def boot_def provisioned_def

lemmas rof_defs = RETURN_ON_FAILURE_def RETURN_ON_FAILURE_out_def

lemma combined_version_zero: "combined_version kv v = 0"
  unfolding combined_version_def
  by (rule bit_word_eqI) (auto simp: bit_simps dest: bit_imp_le_length)

lemma Memcmp_eq_0_iff: "Memcmp a b n = 0 \<longleftrightarrow> take n a = take n b"
  by (induction a b n rule: Memcmp.induct) auto

lemma replicate_4: "replicate 4 x = [x, x, x, x]"
  by (simp add: numeral_eq_Suc)

lemma replicate_8: "replicate 8 x = [x, x, x, x, x, x, x, x]"
  by (simp add: numeral_eq_Suc)

subsection \<open>Which functions touch the recovery flag\<close>

lemma fosD:
  "flag_only_set may f \<Longrightarrow> f st = (r, st') \<Longrightarrow>
   g_rollback_recovery_mode st' = g_rollback_recovery_mode st \<or>
   may \<and> g_rollback_recovery_mode st' = 1"
  unfolding flag_only_set_def by (drule spec [of _ st]) simp

lemma fosI:
  assumes "\<And>st r st'. f st = (r, st') \<Longrightarrow>
      g_rollback_recovery_mode st' = g_rollback_recovery_mode st \<or>
      may \<and> g_rollback_recovery_mode st' = 1"
  shows "flag_only_set may f"
  unfolding flag_only_set_def
proof
  fix st
  show "g_rollback_recovery_mode (snd (f st)) = g_rollback_recovery_mode st \<or>
        may \<and> g_rollback_recovery_mode (snd (f st)) = 1"
    using assms [of st "fst (f st)" "snd (f st)"] by simp
qed

lemma fos_return: "flag_only_set may (\<lambda>st. (x, st))"
  by (simp add: flag_only_set_def)

lemma fos_tlcl:
  "flag_only_set may (tlcl_status call cmd)"
  "flag_only_set may (tlcl_output call cmd')"
  by (simp_all add: flag_only_set_def tlcl_defs split: prod.splits)

lemma fos_ROF:
  assumes "flag_only_set may f" and "flag_only_set may k"
  shows "flag_only_set may (RETURN_ON_FAILURE c f k)"
proof (rule fosI)
  fix st r st'
  assume run: "RETURN_ON_FAILURE c f k st = (r, st')"
  obtain r1 st1 where f: "f st = (r1, st1)" by (cases "f st")
  note 1 = fosD [OF assms(1) f]
  show "g_rollback_recovery_mode st' = g_rollback_recovery_mode st \<or>
        may \<and> g_rollback_recovery_mode st' = 1"
  proof (cases "r1 = TPM_SUCCESS c")
    case True
    with run f have "k st1 = (r, st')" by (simp add: RETURN_ON_FAILURE_def)
    from fosD [OF assms(2) this] 1 show ?thesis by auto
  next
    case False
    with run f have "st' = st1" by (simp add: RETURN_ON_FAILURE_def)
    with 1 show ?thesis by simp
  qed
qed

lemma fos_ROF_out:
  assumes "flag_only_set may f" and "\<And>x. flag_only_set may (k x)"
  shows "flag_only_set may (RETURN_ON_FAILURE_out c f k)"
proof (rule fosI)
  fix st r st'
  assume run: "RETURN_ON_FAILURE_out c f k st = (r, st')"
  obtain r1 x st1 where f: "f st = ((r1, x), st1)" by (cases "f st") auto
  note 1 = fosD [OF assms(1) f]
  show "g_rollback_recovery_mode st' = g_rollback_recovery_mode st \<or>
        may \<and> g_rollback_recovery_mode st' = 1"
  proof (cases "r1 = TPM_SUCCESS c")
    case True
    with run f have "k x st1 = (r, st')" by (simp add: RETURN_ON_FAILURE_out_def)
    from fosD [OF assms(2) this] 1 show ?thesis by auto
  next
    case False
    with run f have "st' = st1" by (simp add: RETURN_ON_FAILURE_out_def)
    with 1 show ?thesis by simp
  qed
qed

lemma fos_TPMClearAndReenable: "flag_only_set may (TPMClearAndReenable c dev)"
  unfolding TPMClearAndReenable_def TlclForceClear_def TlclSetEnable_def TlclSetDeactivated_def
  by (intro fos_ROF fos_tlcl fos_return)

lemma fos_read: "flag_only_set may (TlclRead dev i n)"
  by (simp add: TlclRead_def fos_tlcl)

lemma fos_write: "flag_only_set may (TlclWrite dev i d n)"
  by (simp add: TlclWrite_def fos_tlcl)

lemma fos_define: "flag_only_set may (TlclDefineSpace dev i p n)"
  by (simp add: TlclDefineSpace_def fos_tlcl)

lemma fos_SafeWrite: "flag_only_set may (SafeWrite c dev i d n)"
proof (rule fosI)
  fix st r st'
  assume run: "SafeWrite c dev i d n st = (r, st')"
  obtain r1 st1 where w: "TlclWrite dev i d n st = (r1, st1)" by (cases "TlclWrite dev i d n st")
  note 1 = fosD [OF fos_write w, of may]
  show "g_rollback_recovery_mode st' = g_rollback_recovery_mode st \<or>
        may \<and> g_rollback_recovery_mode st' = 1"
  proof (cases "r1 = TPM_E_MAXNVWRITES c")
    case True
    with run w have
      "RETURN_ON_FAILURE c (TPMClearAndReenable c dev) (TlclWrite dev i d n) st1 = (r, st')"
      by (simp add: SafeWrite_def)
    from fosD [OF fos_ROF [OF fos_TPMClearAndReenable fos_write] this, of may] 1
    show ?thesis by auto
  next
    case False
    with run w have "st' = st1" by (simp add: SafeWrite_def)
    with 1 show ?thesis by simp
  qed
qed

lemma fos_if:
  "flag_only_set may f \<Longrightarrow> flag_only_set may g \<Longrightarrow> flag_only_set may (if b then f else g)"
  by simp

lemma fos_case_prod:
  "(\<And>a b. flag_only_set may (F a b)) \<Longrightarrow> flag_only_set may (case x of (a, b) \<Rightarrow> F a b)"
  by (cases x) simp

lemmas fos_intros =
  fos_ROF fos_ROF_out fos_if fos_case_prod fos_return fos_tlcl fos_read fos_write fos_define
  fos_SafeWrite fos_TPMClearAndReenable

lemma fos_InitializeSpaces: "flag_only_set may (InitializeSpaces c dev)"
  unfolding InitializeSpaces_def InitializeKernelVersionsSpaces_def Let_def TlclSetNvLocked_def
  by (intro fos_intros)

lemma fos_SetDistrust: "flag_only_set may (SetDistrustKernelSpaceAtNextBoot c dev distrust)"
  unfolding SetDistrustKernelSpaceAtNextBoot_def Let_def
  by (intro fos_intros)

lemma fos_RecoverKernelSpace: "flag_only_set may (RecoverKernelSpace c dev)"
  unfolding RecoverKernelSpace_def Let_def TlclGetPermissions_def
  by (intro fos_intros)

lemma fos_BackupKernelSpace: "flag_only_set may (BackupKernelSpace c dev)"
  unfolding BackupKernelSpace_def Let_def
  by (intro fos_intros)

lemma fos_CheckDeveloperModeTransition:
  "flag_only_set may (CheckDeveloperModeTransition c dev d)"
  unfolding CheckDeveloperModeTransition_def Let_def
  by (intro fos_intros)

lemma fos_GetSpacesInitialized: "flag_only_set may (GetSpacesInitialized c dev i)"
proof (rule fosI)
  fix st r st'
  assume run: "GetSpacesInitialized c dev i st = (r, st')"
  obtain r1 x st1 where f: "TlclRead dev (TPM_IS_INITIALIZED_NV_INDEX c) 4 st = ((r1, x), st1)"
    by (cases "TlclRead dev (TPM_IS_INITIALIZED_NV_INDEX c) 4 st") auto
  from run f have "st' = st1"
    by (simp add: GetSpacesInitialized_def split: if_splits)
  with fosD [OF fos_read f, of may]
  show "g_rollback_recovery_mode st' = g_rollback_recovery_mode st \<or>
        may \<and> g_rollback_recovery_mode st' = 1" by simp
qed

lemma fos_SetupTPM_finish: "flag_only_set (rm \<noteq> 0) (SetupTPM_finish c dev rm dm)"
proof -
  have "flag_only_set (rm \<noteq> 0)
      (\<lambda>st. (TPM_SUCCESS c, if rm \<noteq> 0 then st\<lparr>g_rollback_recovery_mode := 1\<rparr> else st))"
    by (simp add: flag_only_set_def)
  then show ?thesis
    unfolding SetupTPM_finish_def
    by (intro fos_ROF fos_BackupKernelSpace fos_SetDistrust fos_CheckDeveloperModeTransition)
qed

lemma fos_SetupTPM_spaces: "flag_only_set (rm \<noteq> 0) (SetupTPM_spaces c dev rm dm)"
proof (rule fosI)
  fix st r st'
  assume run: "SetupTPM_spaces c dev rm dm st = (r, st')"
  let ?k = "RETURN_ON_FAILURE_out c (GetSpacesInitialized c dev 0)
         (\<lambda>initialized.
            if initialized \<noteq> 0 then (\<lambda>st. (TPM_E_ALREADY_INITIALIZED c, st))
            else RETURN_ON_FAILURE c (InitializeSpaces c dev)
                (RETURN_ON_FAILURE c (RecoverKernelSpace c dev) (SetupTPM_finish c dev rm dm)))"
  have k: "flag_only_set (rm \<noteq> 0) ?k"
    by (intro fos_intros fos_GetSpacesInitialized fos_InitializeSpaces fos_RecoverKernelSpace
        fos_SetupTPM_finish)
  obtain r1 st1 where f: "RecoverKernelSpace c dev st = (r1, st1)"
    by (cases "RecoverKernelSpace c dev st")
  note 1 = fosD [OF fos_RecoverKernelSpace f, of "rm \<noteq> 0"]
  show "g_rollback_recovery_mode st' = g_rollback_recovery_mode st \<or>
        rm \<noteq> 0 \<and> g_rollback_recovery_mode st' = 1"
  proof (cases "r1 = TPM_SUCCESS c")
    case True
    with run f have "SetupTPM_finish c dev rm dm st1 = (r, st')"
      by (simp add: SetupTPM_spaces_def)
    from fosD [OF fos_SetupTPM_finish this] 1 show ?thesis by auto
  next
    case False
    with run f have "?k st1 = (r, st')"
      by (simp add: SetupTPM_spaces_def Let_def)
    from fosD [OF k this] 1 show ?thesis by auto
  qed
qed

lemma fos_SetupTPM: "flag_only_set (rm \<noteq> 0) (SetupTPM c dev rm dm)"
proof (rule fosI)
  fix st r st'
  assume run: "SetupTPM c dev rm dm st = (r, st')"
  let ?k = "RETURN_ON_FAILURE c (TlclStartup dev)
     (RETURN_ON_FAILURE c (TlclContinueSelfTest dev)
     (RETURN_ON_FAILURE c (TlclAssertPhysicalPresence dev)
     (RETURN_ON_FAILURE_out c (TlclGetFlags dev)
       (\<lambda>(disable, deactivated).
          if disable \<noteq> 0 \<or> deactivated \<noteq> 0 then
            RETURN_ON_FAILURE c (TlclSetEnable dev)
           (RETURN_ON_FAILURE c (TlclSetDeactivated dev 0)
           (\<lambda>st. (TPM_E_MUST_REBOOT c, st)))
          else SetupTPM_spaces c dev rm dm))))"
  have k: "flag_only_set (rm \<noteq> 0) ?k"
    unfolding TlclStartup_def TlclContinueSelfTest_def TlclAssertPhysicalPresence_def
      TlclGetFlags_def TlclSetEnable_def TlclSetDeactivated_def
    by (intro fos_intros fos_SetupTPM_spaces)
  from run have "?k (TlclLibInit dev st) = (r, st')"
    by (simp add: SetupTPM_def)
  from fosD [OF k this]
  show "g_rollback_recovery_mode st' = g_rollback_recovery_mode st \<or>
        rm \<noteq> 0 \<and> g_rollback_recovery_mode st' = 1"
    by (simp add: TlclLibInit_def)
qed

subsection \<open>Which events a function appends to the trace\<close>

lemma emitsD:
  "emits P f \<Longrightarrow> f st = (r, st') \<Longrightarrow> \<exists>evs. trace st' = trace st @ evs \<and> list_all P evs"
  unfolding emits_def by (drule spec [of _ st]) simp

lemma emitsI:
  assumes "\<And>st r st'. f st = (r, st') \<Longrightarrow> \<exists>evs. trace st' = trace st @ evs \<and> list_all P evs"
  shows "emits P f"
  unfolding emits_def
proof
  fix st
  show "\<exists>evs. trace (snd (f st)) = trace st @ evs \<and> list_all P evs"
    using assms [of st "fst (f st)" "snd (f st)"] by simp
qed

lemma emits_mono: "emits P f \<Longrightarrow> (\<And>e. P e \<Longrightarrow> Q e) \<Longrightarrow> emits Q f"
  unfolding emits_def list_all_iff by blast

lemma emits_return: "emits P (\<lambda>st. (x, st))"
  by (simp add: emits_def)

lemma emits_status: "(\<And>r. P (Call call r)) \<Longrightarrow> emits P (tlcl_status call cmd)"
  by (simp add: emits_def tlcl_status_def split: prod.splits)

lemma emits_output: "(\<And>r. P (Call call r)) \<Longrightarrow> emits P (tlcl_output call cmd)"
  by (simp add: emits_def tlcl_output_def split: prod.splits)

lemma emits_ROF:
  assumes "emits P f" and "emits P k"
  shows "emits P (RETURN_ON_FAILURE c f k)"
proof (rule emitsI)
  fix st r st'
  assume run: "RETURN_ON_FAILURE c f k st = (r, st')"
  obtain r1 st1 where f: "f st = (r1, st1)" by (cases "f st")
  from emitsD [OF assms(1) f] obtain e1 where 1: "trace st1 = trace st @ e1" "list_all P e1"
    by blast
  show "\<exists>evs. trace st' = trace st @ evs \<and> list_all P evs"
  proof (cases "r1 = TPM_SUCCESS c")
    case True
    with run f have "k st1 = (r, st')" by (simp add: RETURN_ON_FAILURE_def)
    from emitsD [OF assms(2) this] obtain e2 where "trace st' = trace st1 @ e2" "list_all P e2"
      by blast
    with 1 have "trace st' = trace st @ (e1 @ e2) \<and> list_all P (e1 @ e2)" by simp
    then show ?thesis by blast
  next
    case False
    with run f have "st' = st1" by (simp add: RETURN_ON_FAILURE_def)
    with 1 show ?thesis by blast
  qed
qed

lemma emits_ROF_out:
  assumes "emits P f" and "\<And>x. emits P (k x)"
  shows "emits P (RETURN_ON_FAILURE_out c f k)"
proof (rule emitsI)
  fix st r st'
  assume run: "RETURN_ON_FAILURE_out c f k st = (r, st')"
  obtain r1 x st1 where f: "f st = ((r1, x), st1)" by (cases "f st") auto
  from emitsD [OF assms(1) f] obtain e1 where 1: "trace st1 = trace st @ e1" "list_all P e1"
    by blast
  show "\<exists>evs. trace st' = trace st @ evs \<and> list_all P evs"
  proof (cases "r1 = TPM_SUCCESS c")
    case True
    with run f have "k x st1 = (r, st')" by (simp add: RETURN_ON_FAILURE_out_def)
    from emitsD [OF assms(2) this] obtain e2 where "trace st' = trace st1 @ e2" "list_all P e2"
      by blast
    with 1 have "trace st' = trace st @ (e1 @ e2) \<and> list_all P (e1 @ e2)" by simp
    then show ?thesis by blast
  next
    case False
    with run f have "st' = st1" by (simp add: RETURN_ON_FAILURE_out_def)
    with 1 show ?thesis by blast
  qed
qed

lemma emits_if: "emits P f \<Longrightarrow> emits P g \<Longrightarrow> emits P (if b then f else g)"
  by simp

lemma emits_case_prod:
  "(\<And>a b. emits P (F a b)) \<Longrightarrow> emits P (case x of (a, b) \<Rightarrow> F a b)"
  by (cases x) simp

lemma emits_TPMClearAndReenable:
  "(\<And>r. P (Call ForceClear r)) \<Longrightarrow> (\<And>r. P (Call SetEnable r)) \<Longrightarrow>
   (\<And>r. P (Call (SetDeactivated 0) r)) \<Longrightarrow> emits P (TPMClearAndReenable c dev)"
  unfolding TPMClearAndReenable_def TlclForceClear_def TlclSetEnable_def TlclSetDeactivated_def
  by (intro emits_ROF emits_status emits_return)

lemma emits_SafeWrite:
  assumes "\<And>r. P (Call (Write i d n) r)" and "\<And>r. P (Call ForceClear r)"
    and "\<And>r. P (Call SetEnable r)" and "\<And>r. P (Call (SetDeactivated 0) r)"
  shows "emits P (SafeWrite c dev i d n)"
proof (rule emitsI)
  fix st r st'
  assume run: "SafeWrite c dev i d n st = (r, st')"
  have w: "emits P (TlclWrite dev i d n)"
    unfolding TlclWrite_def by (rule emits_status) (rule assms(1))
  have k: "emits P (RETURN_ON_FAILURE c (TPMClearAndReenable c dev) (TlclWrite dev i d n))"
    by (intro emits_ROF emits_TPMClearAndReenable w assms)
  obtain r1 st1 where f: "TlclWrite dev i d n st = (r1, st1)" by (cases "TlclWrite dev i d n st")
  from emitsD [OF w f] obtain e1 where 1: "trace st1 = trace st @ e1" "list_all P e1"
    by blast
  show "\<exists>evs. trace st' = trace st @ evs \<and> list_all P evs"
  proof (cases "r1 = TPM_E_MAXNVWRITES c")
    case True
    with run f have
      "RETURN_ON_FAILURE c (TPMClearAndReenable c dev) (TlclWrite dev i d n) st1 = (r, st')"
      by (simp add: SafeWrite_def)
    from emitsD [OF k this] obtain e2 where "trace st' = trace st1 @ e2" "list_all P e2"
      by blast
    with 1 have "trace st' = trace st @ (e1 @ e2) \<and> list_all P (e1 @ e2)" by simp
    then show ?thesis by blast
  next
    case False
    with run f have "st' = st1" by (simp add: SafeWrite_def)
    with 1 show ?thesis by blast
  qed
qed

lemmas emits_intros =
  emits_ROF emits_ROF_out emits_if emits_case_prod emits_return emits_status emits_output
  emits_SafeWrite emits_TPMClearAndReenable

text \<open>\<open>SetupTPM\<close> and the functions it calls never call \<open>TlclSetGlobalLock\<close>, and
  the part of \<open>SetupTPM\<close> after the flag check starts with the read of
  \<open>KERNEL_MUST_USE_BACKUP_NV_INDEX\<close>.\<close>

lemma emits_InitializeSpaces_no_lock:
  "emits (\<lambda>e. \<forall>r. e \<noteq> Call SetGlobalLock r) (InitializeSpaces c dev)"
  unfolding InitializeSpaces_def InitializeKernelVersionsSpaces_def Let_def
    TlclSetNvLocked_def TlclDefineSpace_def
  by (intro emits_intros; simp)

lemma emits_SetDistrust_no_lock:
  "emits (\<lambda>e. \<forall>r. e \<noteq> Call SetGlobalLock r) (SetDistrustKernelSpaceAtNextBoot c dev distrust)"
  unfolding SetDistrustKernelSpaceAtNextBoot_def Let_def TlclRead_def
  by (intro emits_intros; simp)

lemma emits_RecoverKernelSpace_no_lock:
  "emits (\<lambda>e. \<forall>r. e \<noteq> Call SetGlobalLock r) (RecoverKernelSpace c dev)"
  unfolding RecoverKernelSpace_def Let_def TlclGetPermissions_def TlclRead_def
  by (intro emits_intros; simp)

lemma emits_BackupKernelSpace_no_lock:
  "emits (\<lambda>e. \<forall>r. e \<noteq> Call SetGlobalLock r) (BackupKernelSpace c dev)"
  unfolding BackupKernelSpace_def Let_def TlclRead_def
  by (intro emits_intros; simp)

lemma emits_CheckDeveloperModeTransition_no_lock:
  "emits (\<lambda>e. \<forall>r. e \<noteq> Call SetGlobalLock r) (CheckDeveloperModeTransition c dev d)"
  unfolding CheckDeveloperModeTransition_def Let_def TlclRead_def
  by (intro emits_intros; simp)

lemma emits_GetSpacesInitialized_no_lock:
  "emits (\<lambda>e. \<forall>r. e \<noteq> Call SetGlobalLock r) (GetSpacesInitialized c dev i)"
proof (rule emitsI)
  fix st r st'
  let ?P = "\<lambda>e. \<forall>r. e \<noteq> Call SetGlobalLock r"
  assume run: "GetSpacesInitialized c dev i st = (r, st')"
  obtain r1 x st1 where f: "TlclRead dev (TPM_IS_INITIALIZED_NV_INDEX c) 4 st = ((r1, x), st1)"
    by (cases "TlclRead dev (TPM_IS_INITIALIZED_NV_INDEX c) 4 st") auto
  from run f have "st' = st1"
    by (simp add: GetSpacesInitialized_def split: if_splits)
  moreover have "emits ?P (TlclRead dev (TPM_IS_INITIALIZED_NV_INDEX c) 4)"
    unfolding TlclRead_def by (rule emits_output) simp
  from emitsD [OF this f] have "\<exists>evs. trace st1 = trace st @ evs \<and> list_all ?P evs" .
  ultimately show "\<exists>evs. trace st' = trace st @ evs \<and> list_all ?P evs" by simp
qed

lemma emits_SetupTPM_finish_no_lock:
  "emits (\<lambda>e. \<forall>r. e \<noteq> Call SetGlobalLock r) (SetupTPM_finish c dev rm dm)"
proof -
  have "emits (\<lambda>e. \<forall>r. e \<noteq> Call SetGlobalLock r)
      (\<lambda>st. (TPM_SUCCESS c, if rm \<noteq> 0 then st\<lparr>g_rollback_recovery_mode := 1\<rparr> else st))"
    by (simp add: emits_def)
  then show ?thesis
    unfolding SetupTPM_finish_def
    by (intro emits_ROF emits_BackupKernelSpace_no_lock emits_SetDistrust_no_lock
        emits_CheckDeveloperModeTransition_no_lock)
qed

lemma SetupTPM_spaces_after_recover:
  "\<exists>evs. trace (snd (SetupTPM_spaces c dev rm dm st))
            = trace (snd (RecoverKernelSpace c dev st)) @ evs \<and>
         list_all (\<lambda>e. \<forall>r. e \<noteq> Call SetGlobalLock r) evs"
proof -
  let ?P = "\<lambda>e. \<forall>r. e \<noteq> Call SetGlobalLock r"
  let ?k = "RETURN_ON_FAILURE_out c (GetSpacesInitialized c dev 0)
         (\<lambda>initialized.
            if initialized \<noteq> 0 then (\<lambda>st. (TPM_E_ALREADY_INITIALIZED c, st))
            else RETURN_ON_FAILURE c (InitializeSpaces c dev)
                (RETURN_ON_FAILURE c (RecoverKernelSpace c dev) (SetupTPM_finish c dev rm dm)))"
  have k: "emits ?P ?k"
    by (intro emits_ROF emits_ROF_out emits_if emits_return emits_GetSpacesInitialized_no_lock
        emits_InitializeSpaces_no_lock emits_RecoverKernelSpace_no_lock
        emits_SetupTPM_finish_no_lock)
  obtain r1 st1 where f: "RecoverKernelSpace c dev st = (r1, st1)"
    by (cases "RecoverKernelSpace c dev st")
  obtain r st' where run: "SetupTPM_spaces c dev rm dm st = (r, st')"
    by (cases "SetupTPM_spaces c dev rm dm st")
  have "\<exists>e2. trace st' = trace st1 @ e2 \<and> list_all ?P e2"
  proof (cases "r1 = TPM_SUCCESS c")
    case True
    with run f have "SetupTPM_finish c dev rm dm st1 = (r, st')"
      by (simp add: SetupTPM_spaces_def)
    from emitsD [OF emits_SetupTPM_finish_no_lock this] show ?thesis .
  next
    case False
    with run f have "?k st1 = (r, st')"
      by (simp add: SetupTPM_spaces_def Let_def)
    from emitsD [OF k this] show ?thesis .
  qed
  with run f show ?thesis by simp
qed

lemma emits_SetupTPM_spaces_no_lock:
  "emits (\<lambda>e. \<forall>r. e \<noteq> Call SetGlobalLock r) (SetupTPM_spaces c dev rm dm)"
  unfolding emits_def
proof
  fix st
  let ?P = "\<lambda>e. \<forall>r. e \<noteq> Call SetGlobalLock r"
  from emits_RecoverKernelSpace_no_lock [of c dev]
  obtain e1 where 1: "trace (snd (RecoverKernelSpace c dev st)) = trace st @ e1" "list_all ?P e1"
    unfolding emits_def by blast
  from SetupTPM_spaces_after_recover [of c dev rm dm st]
  obtain e2 where 2: "trace (snd (SetupTPM_spaces c dev rm dm st))
      = trace (snd (RecoverKernelSpace c dev st)) @ e2" "list_all ?P e2" by blast
  from 1 2 have "trace (snd (SetupTPM_spaces c dev rm dm st)) = trace st @ (e1 @ e2) \<and>
      list_all ?P (e1 @ e2)" by simp
  then show "\<exists>evs. trace (snd (SetupTPM_spaces c dev rm dm st)) = trace st @ evs \<and>
      list_all ?P evs" by blast
qed

lemma ROF_out_first_event:
  assumes "\<And>x. emits P (k x)"
  shows "\<exists>r evs. trace (snd (RETURN_ON_FAILURE_out c (tlcl_output call cmd) k st))
                   = trace st @ Call call r # evs"
proof -
  obtain r1 x st1 where f: "tlcl_output call cmd st = ((r1, x), st1)"
    by (cases "tlcl_output call cmd st") auto
  then have 1: "trace st1 = trace st @ [Call call r1]"
    by (auto simp: tlcl_output_def split: prod.splits)
  show ?thesis
  proof (cases "r1 = TPM_SUCCESS c")
    case True
    from assms [of x] obtain e2 where "trace (snd (k x st1)) = trace st1 @ e2"
      unfolding emits_def by blast
    with True f 1 show ?thesis by (simp add: RETURN_ON_FAILURE_out_def)
  next
    case False
    with f 1 show ?thesis by (simp add: RETURN_ON_FAILURE_out_def)
  qed
qed

lemma RecoverKernelSpace_first_event:
  "\<exists>r evs. trace (snd (RecoverKernelSpace c dev st))
             = trace st @ Call (Read (KERNEL_MUST_USE_BACKUP_NV_INDEX c) 4) r # evs"
  unfolding RecoverKernelSpace_def Let_def TlclGetPermissions_def TlclRead_def
  by (rule ROF_out_first_event [where P = "\<lambda>e. True"]) (intro emits_intros; simp)

lemma SetupTPM_spaces_first_event:
  "\<exists>r evs. trace (snd (SetupTPM_spaces c dev rm dm st))
             = trace st @ Call (Read (KERNEL_MUST_USE_BACKUP_NV_INDEX c) 4) r # evs"
proof -
  from RecoverKernelSpace_first_event [of c dev st]
  obtain r e1 where 1: "trace (snd (RecoverKernelSpace c dev st))
      = trace st @ Call (Read (KERNEL_MUST_USE_BACKUP_NV_INDEX c) 4) r # e1" by blast
  from SetupTPM_spaces_after_recover [of c dev rm dm st]
  obtain e2 where 2: "trace (snd (SetupTPM_spaces c dev rm dm st))
      = trace (snd (RecoverKernelSpace c dev st)) @ e2" by blast
  from 1 2 have "trace (snd (SetupTPM_spaces c dev rm dm st))
      = trace st @ Call (Read (KERNEL_MUST_USE_BACKUP_NV_INDEX c) 4) r # (e1 @ e2)" by simp
  then show ?thesis by blast
qed

lemma SetupTPM_no_lock:
  "\<exists>evs. trace (snd (SetupTPM c dev rm dm st)) = trace st @ evs \<and>
         list_all (\<lambda>e. \<forall>r. e \<noteq> Call SetGlobalLock r) evs"
proof -
  let ?P = "\<lambda>e. \<forall>r. e \<noteq> Call SetGlobalLock r"
  let ?k = "RETURN_ON_FAILURE c (TlclStartup dev)
     (RETURN_ON_FAILURE c (TlclContinueSelfTest dev)
     (RETURN_ON_FAILURE c (TlclAssertPhysicalPresence dev)
     (RETURN_ON_FAILURE_out c (TlclGetFlags dev)
       (\<lambda>(disable, deactivated).
          if disable \<noteq> 0 \<or> deactivated \<noteq> 0 then
            RETURN_ON_FAILURE c (TlclSetEnable dev)
           (RETURN_ON_FAILURE c (TlclSetDeactivated dev 0)
           (\<lambda>st. (TPM_E_MUST_REBOOT c, st)))
          else SetupTPM_spaces c dev rm dm))))"
  have k: "emits ?P ?k"
    unfolding TlclStartup_def TlclContinueSelfTest_def TlclAssertPhysicalPresence_def
      TlclGetFlags_def TlclSetEnable_def TlclSetDeactivated_def
    by (intro emits_intros emits_SetupTPM_spaces_no_lock; simp)
  have "SetupTPM c dev rm dm st = ?k (TlclLibInit dev st)"
    by (simp add: SetupTPM_def)
  moreover from k obtain e2 where
    "trace (snd (?k (TlclLibInit dev st))) = trace (TlclLibInit dev st) @ e2" "list_all ?P e2"
    unfolding emits_def by blast
  ultimately have "trace (snd (SetupTPM c dev rm dm st)) = trace st @ (LibInit # e2) \<and>
      list_all ?P (LibInit # e2)"
    by (simp add: TlclLibInit_def)
  then show ?thesis by blast
qed

subsection \<open>Writing the versions\<close>

text \<open>
  C1 (the code departs from the claim). The claim: \<open>RollbackFirmwareWrite(kv, v)\<close> and
  \<open>RollbackKernelWrite(kv, v)\<close> write \<open>(kv << 16) | v\<close> through SafeWrite. The code
  combines the two halves with \<open>&\<close>, and the shifted key version has no bit in common
  with the version, so the value written is 0 whatever the arguments
  (\<open>combined_version_zero\<close>). With key version 1 and version 1 on a provisioned TPM, both
  functions write the four bytes 00 00 00 00, where the claimed value is 0x00010001.
\<close>

theorem RollbackWrite_writes_zero:
  "combined_version 1 1 = 0 \<and>
   push_bit 16 (ucast (1 :: uint16)) OR ucast (1 :: uint16) = (0x10001 :: uint32) \<and>
   RollbackFirmwareWrite vboot (sim_device vboot) 1 1
       (boot (provisioned [0, 0, 0, 0, 0x47, 0x52, 0x57, 0x4C] [0, 0, 0, 0] [0, 0, 0, 0] []))
     = (0, \<lparr> g_rollback_recovery_mode = 0,
             trace = [Call (Write 0x1001 [0, 0, 0, 0] 4) 0],
             tpm = provisioned [0, 0, 0, 0, 0x47, 0x52, 0x57, 0x4C] [0, 0, 0, 0] [0, 0, 0, 0] [] \<rparr>) \<and>
   RollbackKernelWrite vboot (sim_device vboot) 1 1
       (boot (provisioned [0, 0, 0, 0, 0x47, 0x52, 0x57, 0x4C] [0, 0, 0, 0] [0, 0, 0, 0] []))
     = (0, \<lparr> g_rollback_recovery_mode = 0,
             trace = [Call (Write 0x1002 [0, 0, 0, 0] 4) 0],
             tpm = provisioned [0, 0, 0, 0, 0x47, 0x52, 0x57, 0x4C] [0, 0, 0, 0] [0, 0, 0, 0] [] \<rparr>)"
  by (simp add: RollbackFirmwareWrite_def RollbackKernelWrite_def SafeWrite_def
      combined_version_zero bytes_of_uint32_def tlcl_defs sim_defs)

subsection \<open>RecoverKernelSpace\<close>

text \<open>What the code does for every device. After its three reads the check
  gives \<open>TPM_E_CORRUPTED_STATE\<close> when the permissions are not PPWRITE or when the
  tag bytes are equal to \<open>KERNEL_SPACE_UID\<close>. When the check is passed with a non-zero
  flag, and the backup is read and written into the kernel space, what remains is the
  SafeWrite to \<open>KERNEL_MUST_USE_BACKUP_NV_INDEX\<close> with length 0.\<close>

lemma RecoverKernelSpace_check:
  assumes "TlclRead dev (KERNEL_MUST_USE_BACKUP_NV_INDEX c) 4 st = ((TPM_SUCCESS c, buf0), st1)"
    and "TlclRead dev (KERNEL_VERSIONS_NV_INDEX c) (KERNEL_SPACE_SIZE c) st1
           = ((TPM_SUCCESS c, buffer), st2)"
    and "TlclGetPermissions dev (KERNEL_VERSIONS_NV_INDEX c) st2 = ((TPM_SUCCESS c, perms), st3)"
    and "perms \<noteq> TPM_NV_PER_PPWRITE c \<or>
         take (KERNEL_SPACE_UID_SIZE c) (drop 4 buffer)
           = take (KERNEL_SPACE_UID_SIZE c) (KERNEL_SPACE_UID c)"
  shows "RecoverKernelSpace c dev st = (TPM_E_CORRUPTED_STATE c, st3)"
  using assms
  by (simp add: RecoverKernelSpace_def RETURN_ON_FAILURE_out_def Memcmp_eq_0_iff)

lemma RecoverKernelSpace_restore:
  assumes "TlclRead dev (KERNEL_MUST_USE_BACKUP_NV_INDEX c) 4 st = ((TPM_SUCCESS c, buf0), st1)"
    and "TlclRead dev (KERNEL_VERSIONS_NV_INDEX c) (KERNEL_SPACE_SIZE c) st1
           = ((TPM_SUCCESS c, buffer), st2)"
    and "TlclGetPermissions dev (KERNEL_VERSIONS_NV_INDEX c) st2
           = ((TPM_SUCCESS c, TPM_NV_PER_PPWRITE c), st3)"
    and "take (KERNEL_SPACE_UID_SIZE c) (drop 4 buffer)
           \<noteq> take (KERNEL_SPACE_UID_SIZE c) (KERNEL_SPACE_UID c)"
    and "uint32_of_bytes buf0 \<noteq> 0"
    and "TlclRead dev (KERNEL_VERSIONS_BACKUP_NV_INDEX c) 4 st3 = ((TPM_SUCCESS c, buf1), st4)"
    and "SafeWrite c dev (KERNEL_VERSIONS_NV_INDEX c)
           (bytes_of_uint32 (uint32_of_bytes buf1)) 4 st4 = (TPM_SUCCESS c, st5)"
  shows "RecoverKernelSpace c dev st
           = SafeWrite c dev (KERNEL_MUST_USE_BACKUP_NV_INDEX c) (bytes_of_uint32 0) 0 st5"
  using assms
  by (simp add: RecoverKernelSpace_def rof_defs Memcmp_eq_0_iff split: prod.splits)

text \<open>
  C2 (the code departs from the claim). The claim: \<open>RecoverKernelSpace\<close> returns
  CorruptedState exactly when the three reads succeed and either the permissions of the
  kernel space are not physical-presence-write or the tag bytes after the counter differ
  from \<open>KERNEL_SPACE_UID\<close>. The code tests \<open>!Memcmp(...)\<close>, which holds when the tag
  bytes are equal to the constant (\<open>RecoverKernelSpace_check\<close>). On a provisioned TPM,
  whose kernel space has the
  permission PPWRITE and the tag of the constant, the function returns
  \<open>TPM_E_CORRUPTED_STATE\<close> after its three reads; on the same TPM with the tag bytes
  zeroed it returns success.
\<close>

theorem RecoverKernelSpace_rejects_matching_tag:
  "RecoverKernelSpace vboot (sim_device vboot)
       (boot (provisioned [0, 0, 0, 0, 0x47, 0x52, 0x57, 0x4C] [0, 0, 0, 0] [0, 0, 0, 0] []))
     = (TPM_E_CORRUPTED_STATE vboot,
        \<lparr> g_rollback_recovery_mode = 0,
          trace = [Call (Read 0x1005 4) 0, Call (Read 0x1002 8) 0,
                   Call (GetPermissions 0x1002) 0],
          tpm = provisioned [0, 0, 0, 0, 0x47, 0x52, 0x57, 0x4C] [0, 0, 0, 0] [0, 0, 0, 0] [] \<rparr>) \<and>
   fst (RecoverKernelSpace vboot (sim_device vboot)
       (boot (provisioned [0, 0, 0, 0, 0, 0, 0, 0] [0, 0, 0, 0] [0, 0, 0, 0] [])))
     = TPM_SUCCESS vboot"
  by (simp add: RecoverKernelSpace_def rof_defs Memcmp_eq_0_iff uint32_of_bytes_def
      tlcl_defs sim_defs)

theorem RecoverKernelSpace_rejects_matching_tag_witness:
  "fst (RecoverKernelSpace vboot (sim_device vboot)
       (boot (provisioned [0, 0, 0, 0, 0x47, 0x52, 0x57, 0x4C] [0, 0, 0, 0] [0, 0, 0, 0] [])))
     = 0x5003"
  using RecoverKernelSpace_rejects_matching_tag by (simp add: vboot_def)

text \<open>
  C3 (the code departs from the claim). The claim: with a non-zero distrust flag and the
  checks passed, \<open>RecoverKernelSpace\<close> reads the backup, writes it into the kernel space
  and then writes the four-byte value 0 into \<open>KERNEL_MUST_USE_BACKUP\<close>, clearing the
  flag. The code passes the length 0 to the last SafeWrite
  (\<open>RecoverKernelSpace_restore\<close>). On a TPM with the flag 1,
  the backup 5 and a kernel space that passes the check of the code (see C2: a tag that
  differs from the constant), the backup is read and written into the kernel space, the
  last call is a write of length 0, and the flag in the NVRAM is still 1.
\<close>

theorem RecoverKernelSpace_clears_with_length_zero:
  "RecoverKernelSpace vboot (sim_device vboot)
       (boot (provisioned [9, 0, 0, 0, 0, 0, 0, 0] [5, 0, 0, 0] [1, 0, 0, 0] []))
     = (TPM_SUCCESS vboot,
        \<lparr> g_rollback_recovery_mode = 0,
          trace = [Call (Read 0x1005 4) 0, Call (Read 0x1002 8) 0,
                   Call (GetPermissions 0x1002) 0, Call (Read 0x1004 4) 0,
                   Call (Write 0x1002 [5, 0, 0, 0] 4) 0,
                   Call (Write 0x1005 [0, 0, 0, 0] 0) 0],
          tpm = provisioned [5, 0, 0, 0, 0, 0, 0, 0] [5, 0, 0, 0] [1, 0, 0, 0] [] \<rparr>)"
  by (simp add: RecoverKernelSpace_def SafeWrite_def rof_defs Memcmp_eq_0_iff
      uint32_of_bytes_def bytes_of_uint32_def tlcl_defs sim_defs)

theorem RecoverKernelSpace_clears_with_length_zero_witness:
  "sim_contents
     (tpm (snd (RecoverKernelSpace vboot (sim_device vboot)
       (boot (provisioned [9, 0, 0, 0, 0, 0, 0, 0] [5, 0, 0, 0] [1, 0, 0, 0] [])))))
     0x1005 = [1, 0, 0, 0]"
  using RecoverKernelSpace_clears_with_length_zero
  by (simp add: sim_contents_def provisioned_def)

subsection \<open>BackupKernelSpace\<close>

lemma uint32_of_bytes_take: "uint32_of_bytes (take 4 xs) = uint32_of_bytes xs"
  by (simp add: uint32_of_bytes_def)

lemma uint32_of_bytes_of_uint32: "uint32_of_bytes (bytes_of_uint32 w @ xs) = w"
proof -
  let ?v = "(ucast (ucast w :: uint8) :: uint32) OR
        push_bit 8 ((ucast (ucast (drop_bit 8 w) :: uint8) :: uint32) OR
        push_bit 8 ((ucast (ucast (drop_bit 16 w) :: uint8) :: uint32) OR
        push_bit 8 (ucast (ucast (drop_bit 24 w) :: uint8) :: uint32)))"
  have "?v = w"
  proof (rule bit_word_eqI)
    fix n
    assume "n < LENGTH(32)"
    then consider "n < 8" | "8 \<le> n" "n < 16" | "16 \<le> n" "n < 24" | "24 \<le> n" "n < 32"
      by fastforce
    then show "bit ?v n = bit w n"
      by cases (auto simp: bit_simps)
  qed
  then show ?thesis
    by (simp add: uint32_of_bytes_def bytes_of_uint32_def)
qed

lemma faithful_Read:
  assumes "nv_faithful c dev contents" and "TlclRead dev i n st = ((r, out), st')"
  shows "contents (tpm st') = contents (tpm st)"
    and "r = TPM_SUCCESS c \<Longrightarrow> out = take (unat n) (contents (tpm st) i)"
proof -
  from assms(1) have a: "contents (snd (dev_Read dev i n (tpm st))) = contents (tpm st)"
    and b: "fst (fst (dev_Read dev i n (tpm st))) = TPM_SUCCESS c \<longrightarrow>
           snd (fst (dev_Read dev i n (tpm st))) = take (unat n) (contents (tpm st) i)"
    unfolding nv_faithful_def by blast+
  from assms(2) have "dev_Read dev i n (tpm st) = ((r, out), tpm st')"
    by (auto simp: TlclRead_def tlcl_output_def split: prod.splits)
  with a b show "contents (tpm st') = contents (tpm st)"
    and "r = TPM_SUCCESS c \<Longrightarrow> out = take (unat n) (contents (tpm st) i)" by simp_all
qed

lemma faithful_Write:
  assumes "nv_faithful c dev contents" and "TlclWrite dev i d n st = (r, st')"
  shows "contents (tpm st') =
     (if r = TPM_SUCCESS c
      then (contents (tpm st))(i := take (unat n) d @ drop (unat n) (contents (tpm st) i))
      else contents (tpm st))"
proof -
  from assms(1) have a: "contents (snd (dev_Write dev i d n (tpm st))) =
        (if fst (dev_Write dev i d n (tpm st)) = TPM_SUCCESS c
         then (contents (tpm st))(i := take (unat n) d @ drop (unat n) (contents (tpm st) i))
         else contents (tpm st))"
    unfolding nv_faithful_def by blast
  from assms(2) have "dev_Write dev i d n (tpm st) = (r, tpm st')"
    by (auto simp: TlclWrite_def tlcl_status_def split: prod.splits)
  with a show ?thesis by simp
qed

lemma faithful_TPMClearAndReenable:
  assumes "nv_faithful c dev contents" and "TPMClearAndReenable c dev st = (r, st')"
  shows "contents (tpm st') = contents (tpm st)"
proof -
  from assms(1) have a: "\<And>s. contents (snd (dev_ForceClear dev s)) = contents s"
    "\<And>s. contents (snd (dev_SetEnable dev s)) = contents s"
    "\<And>s. contents (snd (dev_SetDeactivated dev 0 s)) = contents s"
    unfolding nv_faithful_def by blast+
  from assms(2) show ?thesis
    unfolding TPMClearAndReenable_def RETURN_ON_FAILURE_def TlclForceClear_def TlclSetEnable_def
      TlclSetDeactivated_def tlcl_status_def
    by (auto split: prod.splits if_splits) (metis a snd_conv)+
qed

lemma faithful_SafeWrite:
  assumes "nv_faithful c dev contents" and "SafeWrite c dev i d 4 st = (TPM_SUCCESS c, st')"
    and "length d = 4"
  shows "contents (tpm st') = (contents (tpm st))(i := d @ drop 4 (contents (tpm st) i))"
proof -
  obtain r1 st1 where w: "TlclWrite dev i d 4 st = (r1, st1)" by (cases "TlclWrite dev i d 4 st")
  note c1 = faithful_Write [OF assms(1) w]
  show ?thesis
  proof (cases "r1 = TPM_E_MAXNVWRITES c")
    case False
    with assms(2) w have "r1 = TPM_SUCCESS c" "st' = st1" by (auto simp: SafeWrite_def)
    with c1 assms(3) show ?thesis by simp
  next
    case True
    with assms(2) w have
      r: "RETURN_ON_FAILURE c (TPMClearAndReenable c dev) (TlclWrite dev i d 4) st1
            = (TPM_SUCCESS c, st')"
      by (simp add: SafeWrite_def)
    obtain r2 st2 where cl: "TPMClearAndReenable c dev st1 = (r2, st2)"
      by (cases "TPMClearAndReenable c dev st1")
    with r have w2: "TlclWrite dev i d 4 st2 = (TPM_SUCCESS c, st')"
      by (auto simp: RETURN_ON_FAILURE_def split: if_splits)
    note c2 = faithful_TPMClearAndReenable [OF assms(1) cl]
    note c3 = faithful_Write [OF assms(1) w2]
    from c1 c2 c3 assms(3) show ?thesis by (auto simp: fun_eq_iff)
  qed
qed

text \<open>
  C4. Let both reads of \<open>BackupKernelSpace\<close> succeed, with \<open>primary\<close> the value read
  from \<open>KERNEL_VERSIONS\<close> and \<open>backup\<close> the value read from \<open>KERNEL_VERSIONS_BACKUP\<close>
  (compared as unsigned 32-bit values). If they are equal the function returns success
  in the state left by the two reads, so without a write; if \<open>primary < backup\<close> it
  returns InternalInconsistency, again in that state; if \<open>primary > backup\<close> it is the
  SafeWrite of the four bytes of \<open>primary\<close> to \<open>KERNEL_VERSIONS_BACKUP\<close>, whose first
  call is that write. Hence, on a device whose NVRAM behaves as a store
  (\<open>nv_faithful\<close>), with the two spaces at different indices and the code of
  InternalInconsistency different from success, after a successful call the backup
  space holds a value that is at most the value of the primary space.
\<close>

theorem BackupKernelSpace_cases:
  assumes "TlclRead dev (KERNEL_VERSIONS_NV_INDEX c) 4 st = ((TPM_SUCCESS c, buf0), st1)"
    and "TlclRead dev (KERNEL_VERSIONS_BACKUP_NV_INDEX c) 4 st1 = ((TPM_SUCCESS c, buf1), st2)"
  shows "(uint32_of_bytes buf0 = uint32_of_bytes buf1 \<longrightarrow>
            BackupKernelSpace c dev st = (TPM_SUCCESS c, st2)) \<and>
         (uint32_of_bytes buf0 < uint32_of_bytes buf1 \<longrightarrow>
            BackupKernelSpace c dev st = (TPM_E_INTERNAL_INCONSISTENCY c, st2)) \<and>
         (uint32_of_bytes buf1 < uint32_of_bytes buf0 \<longrightarrow>
            BackupKernelSpace c dev st
              = SafeWrite c dev (KERNEL_VERSIONS_BACKUP_NV_INDEX c)
                  (bytes_of_uint32 (uint32_of_bytes buf0)) 4 st2 \<and>
            (\<exists>r evs. trace (snd (BackupKernelSpace c dev st))
               = trace st2 @ Call (Write (KERNEL_VERSIONS_BACKUP_NV_INDEX c)
                                     (bytes_of_uint32 (uint32_of_bytes buf0)) 4) r # evs)) \<and>
         trace st2 = trace st @ [Call (Read (KERNEL_VERSIONS_NV_INDEX c) 4) (TPM_SUCCESS c),
                                 Call (Read (KERNEL_VERSIONS_BACKUP_NV_INDEX c) 4) (TPM_SUCCESS c)] \<and>
         (nv_faithful c dev contents \<and>
          KERNEL_VERSIONS_NV_INDEX c \<noteq> KERNEL_VERSIONS_BACKUP_NV_INDEX c \<and>
          TPM_E_INTERNAL_INCONSISTENCY c \<noteq> TPM_SUCCESS c \<and>
          fst (BackupKernelSpace c dev st) = TPM_SUCCESS c \<longrightarrow>
            uint32_of_bytes (contents (tpm (snd (BackupKernelSpace c dev st)))
                               (KERNEL_VERSIONS_BACKUP_NV_INDEX c))
              \<le> uint32_of_bytes (contents (tpm (snd (BackupKernelSpace c dev st)))
                                  (KERNEL_VERSIONS_NV_INDEX c)))"
proof -
  let ?K = "KERNEL_VERSIONS_NV_INDEX c" and ?B = "KERNEL_VERSIONS_BACKUP_NV_INDEX c"
  let ?p = "uint32_of_bytes buf0" and ?b = "uint32_of_bytes buf1"
  let ?w = "SafeWrite c dev ?B (bytes_of_uint32 ?p) 4 st2"
  have eq: "?p = ?b \<longrightarrow> BackupKernelSpace c dev st = (TPM_SUCCESS c, st2)"
    using assms by (simp add: BackupKernelSpace_def RETURN_ON_FAILURE_out_def Let_def)
  have lt: "?p < ?b \<longrightarrow> BackupKernelSpace c dev st = (TPM_E_INTERNAL_INCONSISTENCY c, st2)"
    using assms by (auto simp: BackupKernelSpace_def RETURN_ON_FAILURE_out_def Let_def)
  have gt: "?b < ?p \<longrightarrow> BackupKernelSpace c dev st = ?w"
    using assms
    by (auto simp: BackupKernelSpace_def rof_defs Let_def split: prod.splits)
  have first: "\<exists>r evs. trace (snd ?w) = trace st2 @ Call (Write ?B (bytes_of_uint32 ?p) 4) r # evs"
    by (auto simp: SafeWrite_def TPMClearAndReenable_def RETURN_ON_FAILURE_def tlcl_defs
        split: prod.splits)
  have tr: "trace st2 = trace st @ [Call (Read ?K 4) (TPM_SUCCESS c),
                                   Call (Read ?B 4) (TPM_SUCCESS c)]"
    using assms by (auto simp: TlclRead_def tlcl_output_def split: prod.splits)
  have post: "uint32_of_bytes (contents (tpm (snd (BackupKernelSpace c dev st))) ?B)
              \<le> uint32_of_bytes (contents (tpm (snd (BackupKernelSpace c dev st))) ?K)"
    if fa: "nv_faithful c dev contents" and ne: "?K \<noteq> ?B"
      and ii: "TPM_E_INTERNAL_INCONSISTENCY c \<noteq> TPM_SUCCESS c"
      and ok: "fst (BackupKernelSpace c dev st) = TPM_SUCCESS c"
  proof -
    note r0 = faithful_Read [OF fa assms(1)]
    note r1 = faithful_Read [OF fa assms(2)]
    from r0 r1 have c2: "contents (tpm st2) = contents (tpm st)" by simp
    from r0(2) have p: "?p = uint32_of_bytes (contents (tpm st) ?K)"
      by (simp add: uint32_of_bytes_take)
    from r1(2) r0(1) have b: "?b = uint32_of_bytes (contents (tpm st) ?B)"
      by (simp add: uint32_of_bytes_take)
    consider "?p = ?b" | "?p < ?b" | "?b < ?p" by (metis linorder_less_linear)
    then show ?thesis
    proof cases
      case 1
      with eq c2 p b show ?thesis by simp
    next
      case 2
      with lt ii ok show ?thesis by simp
    next
      case 3
      with gt have run: "BackupKernelSpace c dev st = ?w" by simp
      obtain st3 where w: "?w = (TPM_SUCCESS c, st3)"
        using ok run by (cases ?w) simp
      have "length (bytes_of_uint32 ?p) = 4" by (simp add: bytes_of_uint32_def)
      from faithful_SafeWrite [OF fa w this] c2
      have "contents (tpm st3) =
          (contents (tpm st))(?B := bytes_of_uint32 ?p @ drop 4 (contents (tpm st) ?B))"
        by simp
      with ne p run w show ?thesis
        by (simp add: uint32_of_bytes_of_uint32)
    qed
  qed
  from eq lt gt first tr post show ?thesis by (simp add: gt)
qed

lemma map_of_nv_store: "map_of (nv_store k v ps) = (map_of ps)(k \<mapsto> v)"
  by (induction ps) (auto simp: fun_eq_iff)

lemma sim_nv_faithful: "nv_faithful vboot (sim_device vboot) sim_contents"
  unfolding nv_faithful_def
  by (auto simp: sim_device_def sim_fault_def sim_Read_def sim_Write_def sim_contents_def vboot_def
      map_of_nv_store fun_eq_iff split: list.splits option.splits prod.splits)

theorem BackupKernelSpace_cases_witness:
  "BackupKernelSpace vboot (sim_device vboot)
      (boot (provisioned [5, 0, 0, 0, 0x47, 0x52, 0x57, 0x4C] [3, 0, 0, 0] [0, 0, 0, 0] []))
     = (0, \<lparr> g_rollback_recovery_mode = 0,
             trace = [Call (Read 0x1002 4) 0, Call (Read 0x1004 4) 0,
                      Call (Write 0x1004 [5, 0, 0, 0] 4) 0],
             tpm = provisioned [5, 0, 0, 0, 0x47, 0x52, 0x57, 0x4C] [5, 0, 0, 0] [0, 0, 0, 0] [] \<rparr>) \<and>
   uint32_of_bytes (sim_contents
       (tpm (snd (BackupKernelSpace vboot (sim_device vboot)
          (boot (provisioned [5, 0, 0, 0, 0x47, 0x52, 0x57, 0x4C] [3, 0, 0, 0] [0, 0, 0, 0] [])))))
       0x1004)
     \<le> uint32_of_bytes (sim_contents
       (tpm (snd (BackupKernelSpace vboot (sim_device vboot)
          (boot (provisioned [5, 0, 0, 0, 0x47, 0x52, 0x57, 0x4C] [3, 0, 0, 0] [0, 0, 0, 0] [])))))
       0x1002)"
proof -
  let ?dev = "sim_device vboot"
  let ?st = "boot (provisioned [5, 0, 0, 0, 0x47, 0x52, 0x57, 0x4C] [3, 0, 0, 0] [0, 0, 0, 0] [])"
  let ?st1 = "snd (TlclRead ?dev (KERNEL_VERSIONS_NV_INDEX vboot) 4 ?st)"
  let ?st2 = "snd (TlclRead ?dev (KERNEL_VERSIONS_BACKUP_NV_INDEX vboot) 4 ?st1)"
  have 1: "TlclRead ?dev (KERNEL_VERSIONS_NV_INDEX vboot) 4 ?st
      = ((TPM_SUCCESS vboot, [5, 0, 0, 0]), ?st1)"
    by (simp add: tlcl_defs sim_defs)
  have 2: "TlclRead ?dev (KERNEL_VERSIONS_BACKUP_NV_INDEX vboot) 4 ?st1
      = ((TPM_SUCCESS vboot, [3, 0, 0, 0]), ?st2)"
    by (simp add: tlcl_defs sim_defs)
  have run: "BackupKernelSpace vboot ?dev ?st
     = (0, \<lparr> g_rollback_recovery_mode = 0,
             trace = [Call (Read 0x1002 4) 0, Call (Read 0x1004 4) 0,
                      Call (Write 0x1004 [5, 0, 0, 0] 4) 0],
             tpm = provisioned [5, 0, 0, 0, 0x47, 0x52, 0x57, 0x4C] [5, 0, 0, 0] [0, 0, 0, 0] [] \<rparr>)"
    by (simp add: BackupKernelSpace_def SafeWrite_def rof_defs uint32_of_bytes_def
        bytes_of_uint32_def tlcl_defs sim_defs)
  have ne: "KERNEL_VERSIONS_NV_INDEX vboot \<noteq> KERNEL_VERSIONS_BACKUP_NV_INDEX vboot"
    by (simp add: vboot_def)
  have ok: "fst (BackupKernelSpace vboot ?dev ?st) = TPM_SUCCESS vboot"
    by (simp add: run) (simp add: vboot_def)
  have ii: "TPM_E_INTERNAL_INCONSISTENCY vboot \<noteq> TPM_SUCCESS vboot"
    by (simp add: vboot_def)
  from BackupKernelSpace_cases [OF 1 2, of sim_contents] sim_nv_faithful ne ii ok
  have "uint32_of_bytes (sim_contents (tpm (snd (BackupKernelSpace vboot ?dev ?st)))
           (KERNEL_VERSIONS_BACKUP_NV_INDEX vboot))
     \<le> uint32_of_bytes (sim_contents (tpm (snd (BackupKernelSpace vboot ?dev ?st)))
           (KERNEL_VERSIONS_NV_INDEX vboot))"
    by blast
  then show ?thesis using run by (simp add: vboot_def)
qed

subsection \<open>The recovery-mode flag\<close>

text \<open>
  C5. When \<open>g_rollback_recovery_mode\<close> is set (not zero), \<open>RollbackKernelRead\<close>
  returns success with both outputs 0, \<open>RollbackKernelWrite\<close> returns success and
  \<open>RollbackKernelLock\<close> returns success, each leaving the whole state as it is: no TPM
  call is made. The flag is changed only by \<open>SetupTPM\<close> with a non-zero
  \<open>recovery_mode\<close>, and then only to 1: \<open>RollbackFirmwareSetup\<close> (which passes 0) and
  the read, write and lock functions leave it as it is, and \<open>RollbackKernelRecovery\<close>
  (which passes 1) leaves it as it is or sets it to 1.
\<close>

theorem recovery_mode_flag:
  "(g_rollback_recovery_mode st \<noteq> 0 \<longrightarrow>
      RollbackKernelRead c dev key_version version st = ((TPM_SUCCESS c, 0, 0), st) \<and>
      RollbackKernelWrite c dev key_version version st = (TPM_SUCCESS c, st) \<and>
      RollbackKernelLock c dev st = (TPM_SUCCESS c, st)) \<and>
   (g_rollback_recovery_mode (snd (SetupTPM c dev recovery_mode developer_mode st))
      = g_rollback_recovery_mode st \<or>
    recovery_mode \<noteq> 0 \<and>
    g_rollback_recovery_mode (snd (SetupTPM c dev recovery_mode developer_mode st)) = 1) \<and>
   g_rollback_recovery_mode (snd (RollbackFirmwareSetup c dev developer_mode st))
     = g_rollback_recovery_mode st \<and>
   g_rollback_recovery_mode (snd (RollbackFirmwareRead c dev key_version version st))
     = g_rollback_recovery_mode st \<and>
   g_rollback_recovery_mode (snd (RollbackFirmwareWrite c dev key_version version st))
     = g_rollback_recovery_mode st \<and>
   g_rollback_recovery_mode (snd (RollbackFirmwareLock dev st))
     = g_rollback_recovery_mode st \<and>
   g_rollback_recovery_mode (snd (RollbackKernelRead c dev key_version version st))
     = g_rollback_recovery_mode st \<and>
   g_rollback_recovery_mode (snd (RollbackKernelWrite c dev key_version version st))
     = g_rollback_recovery_mode st \<and>
   g_rollback_recovery_mode (snd (RollbackKernelLock c dev st))
     = g_rollback_recovery_mode st \<and>
   (g_rollback_recovery_mode (snd (RollbackKernelRecovery c dev developer_mode st))
      = g_rollback_recovery_mode st \<or>
    g_rollback_recovery_mode (snd (RollbackKernelRecovery c dev developer_mode st)) = 1)"
proof -
  have stp: "g_rollback_recovery_mode (snd (SetupTPM c dev rm dm st))
      = g_rollback_recovery_mode st \<or>
    rm \<noteq> 0 \<and> g_rollback_recovery_mode (snd (SetupTPM c dev rm dm st)) = 1" for rm dm
    using fos_SetupTPM [of rm c dev dm] unfolding flag_only_set_def by blast
  have fwsetup: "g_rollback_recovery_mode (snd (RollbackFirmwareSetup c dev developer_mode st))
     = g_rollback_recovery_mode st"
    using stp [of 0 developer_mode] by (simp add: RollbackFirmwareSetup_def)
  have keep: "g_rollback_recovery_mode (snd (f st)) = g_rollback_recovery_mode st"
    if "flag_only_set False f" for f :: "'a machine \<Rightarrow> uint32 \<times> 'a machine"
    using that unfolding flag_only_set_def by simp
  have fwread: "g_rollback_recovery_mode (snd (RollbackFirmwareRead c dev key_version version st))
     = g_rollback_recovery_mode st"
    by (auto simp: RollbackFirmwareRead_def tlcl_defs Let_def split: prod.splits)
  have fwwrite: "g_rollback_recovery_mode (snd (RollbackFirmwareWrite c dev key_version version st))
     = g_rollback_recovery_mode st"
    unfolding RollbackFirmwareWrite_def by (rule keep) (rule fos_SafeWrite)
  have fwlock: "g_rollback_recovery_mode (snd (RollbackFirmwareLock dev st))
     = g_rollback_recovery_mode st"
    by (auto simp: RollbackFirmwareLock_def tlcl_defs split: prod.splits)
  have kread: "g_rollback_recovery_mode (snd (RollbackKernelRead c dev key_version version st))
     = g_rollback_recovery_mode st"
    by (auto simp: RollbackKernelRead_def tlcl_defs Let_def split: prod.splits)
  have kwrite: "g_rollback_recovery_mode (snd (RollbackKernelWrite c dev key_version version st))
     = g_rollback_recovery_mode st"
    using keep [OF fos_SafeWrite] by (simp add: RollbackKernelWrite_def)
  have klock: "g_rollback_recovery_mode (snd (RollbackKernelLock c dev st))
     = g_rollback_recovery_mode st"
    by (auto simp: RollbackKernelLock_def tlcl_defs split: prod.splits)
  have noop: "g_rollback_recovery_mode st \<noteq> 0 \<longrightarrow>
      RollbackKernelRead c dev key_version version st = ((TPM_SUCCESS c, 0, 0), st) \<and>
      RollbackKernelWrite c dev key_version version st = (TPM_SUCCESS c, st) \<and>
      RollbackKernelLock c dev st = (TPM_SUCCESS c, st)"
    by (simp add: RollbackKernelRead_def RollbackKernelWrite_def RollbackKernelLock_def)
  have krec: "g_rollback_recovery_mode (snd (RollbackKernelRecovery c dev developer_mode st))
      = g_rollback_recovery_mode st \<or>
    g_rollback_recovery_mode (snd (RollbackKernelRecovery c dev developer_mode st)) = 1"
    using stp [of 1 developer_mode]
    by (auto simp: RollbackKernelRecovery_def RETURN_ON_FAILURE_def TlclSetGlobalLock_def
        tlcl_status_def split: prod.splits)
  show ?thesis
    using noop stp [of recovery_mode developer_mode] fwsetup fwread fwwrite fwlock kread
      kwrite klock krec
    by blast
qed

theorem recovery_mode_flag_witness:
  "RollbackKernelRead vboot (sim_device vboot) 7 9
       \<lparr> g_rollback_recovery_mode = 1, trace = [], tpm = provisioned [5, 0, 3, 0, 0x47, 0x52, 0x57, 0x4C] [5, 0, 3, 0] [1, 0, 0, 0] [] \<rparr>
     = ((0, 0, 0), \<lparr> g_rollback_recovery_mode = 1, trace = [], tpm = provisioned [5, 0, 3, 0, 0x47, 0x52, 0x57, 0x4C] [5, 0, 3, 0] [1, 0, 0, 0] [] \<rparr>) \<and>
   RollbackKernelWrite vboot (sim_device vboot) 7 9
       \<lparr> g_rollback_recovery_mode = 1, trace = [], tpm = provisioned [5, 0, 3, 0, 0x47, 0x52, 0x57, 0x4C] [5, 0, 3, 0] [1, 0, 0, 0] [] \<rparr>
     = (0, \<lparr> g_rollback_recovery_mode = 1, trace = [], tpm = provisioned [5, 0, 3, 0, 0x47, 0x52, 0x57, 0x4C] [5, 0, 3, 0] [1, 0, 0, 0] [] \<rparr>) \<and>
   RollbackKernelLock vboot (sim_device vboot)
       \<lparr> g_rollback_recovery_mode = 1, trace = [], tpm = provisioned [5, 0, 3, 0, 0x47, 0x52, 0x57, 0x4C] [5, 0, 3, 0] [1, 0, 0, 0] [] \<rparr>
     = (0, \<lparr> g_rollback_recovery_mode = 1, trace = [], tpm = provisioned [5, 0, 3, 0, 0x47, 0x52, 0x57, 0x4C] [5, 0, 3, 0] [1, 0, 0, 0] [] \<rparr>)"
  using recovery_mode_flag [of "\<lparr> g_rollback_recovery_mode = 1, trace = [], tpm = provisioned [5, 0, 3, 0, 0x47, 0x52, 0x57, 0x4C] [5, 0, 3, 0] [1, 0, 0, 0] [] \<rparr>"
      vboot "sim_device vboot" 7 9]
  by (simp add: vboot_def)

subsection \<open>RollbackKernelRecovery\<close>

text \<open>
  C6. \<open>RollbackKernelRecovery(dev)\<close> runs \<open>SetupTPM(1, dev)\<close>, which never calls
  \<open>TlclSetGlobalLock\<close>, and does not look at its status. If \<open>dev\<close> is 0 it then calls
  \<open>TlclSetGlobalLock\<close> in the state \<open>SetupTPM\<close> left and returns the status of that
  call; otherwise it returns success in the state \<open>SetupTPM\<close> left, so without setting
  the global lock. The status of \<open>SetupTPM\<close> appears nowhere in the result.
\<close>

theorem RollbackKernelRecovery_ignores_SetupTPM:
  "\<exists>evs. trace (snd (SetupTPM c dev 1 developer_mode st)) = trace st @ evs \<and>
     list_all (\<lambda>e. \<forall>r. e \<noteq> Call SetGlobalLock r) evs \<and>
     (developer_mode = 0 \<longrightarrow>
        RollbackKernelRecovery c dev developer_mode st
          = TlclSetGlobalLock dev (snd (SetupTPM c dev 1 developer_mode st)) \<and>
        trace (snd (RollbackKernelRecovery c dev developer_mode st))
          = trace st @ evs @ [Call SetGlobalLock (fst (RollbackKernelRecovery c dev developer_mode st))]) \<and>
     (developer_mode \<noteq> 0 \<longrightarrow>
        RollbackKernelRecovery c dev developer_mode st
          = (TPM_SUCCESS c, snd (SetupTPM c dev 1 developer_mode st)))"
proof -
  obtain evs where evs: "trace (snd (SetupTPM c dev 1 developer_mode st)) = trace st @ evs"
    "list_all (\<lambda>e. \<forall>r. e \<noteq> Call SetGlobalLock r) evs"
    using SetupTPM_no_lock [of c dev 1 developer_mode st] by blast
  have "developer_mode = 0 \<longrightarrow>
        RollbackKernelRecovery c dev developer_mode st
          = TlclSetGlobalLock dev (snd (SetupTPM c dev 1 developer_mode st)) \<and>
        trace (snd (RollbackKernelRecovery c dev developer_mode st))
          = trace st @ evs @ [Call SetGlobalLock (fst (RollbackKernelRecovery c dev developer_mode st))]"
    using evs(1)
    by (auto simp: RollbackKernelRecovery_def RETURN_ON_FAILURE_def TlclSetGlobalLock_def
        tlcl_status_def split: prod.splits)
  moreover have "developer_mode \<noteq> 0 \<longrightarrow>
        RollbackKernelRecovery c dev developer_mode st
          = (TPM_SUCCESS c, snd (SetupTPM c dev 1 developer_mode st))"
    by (simp add: RollbackKernelRecovery_def split: prod.splits)
  ultimately show ?thesis using evs by blast
qed


theorem RollbackKernelRecovery_ignores_SetupTPM_witness:
  "fst (SetupTPM vboot (sim_device vboot) 1 0
          (boot (provisioned [5, 0, 3, 0, 0x47, 0x52, 0x57, 0x4C] [5, 0, 3, 0] [0, 0, 0, 0] [])))
     = TPM_E_ALREADY_INITIALIZED vboot \<and>
   fst (RollbackKernelRecovery vboot (sim_device vboot) 0
          (boot (provisioned [5, 0, 3, 0, 0x47, 0x52, 0x57, 0x4C] [5, 0, 3, 0] [0, 0, 0, 0] [])))
     = TPM_SUCCESS vboot \<and>
   trace (snd (RollbackKernelRecovery vboot (sim_device vboot) 0
          (boot (provisioned [5, 0, 3, 0, 0x47, 0x52, 0x57, 0x4C] [5, 0, 3, 0] [0, 0, 0, 0] []))))
     = [LibInit, Call Startup 0, Call ContinueSelfTest 0, Call AssertPhysicalPresence 0,
        Call GetFlags 0, Call (Read 0x1005 4) 0, Call (Read 0x1002 8) 0,
        Call (GetPermissions 0x1002) 0, Call (Read 0x1003 4) 0, Call SetGlobalLock 0]"
proof -
  let ?st = "boot (provisioned [5, 0, 3, 0, 0x47, 0x52, 0x57, 0x4C] [5, 0, 3, 0] [0, 0, 0, 0] [])"
  have run: "SetupTPM vboot (sim_device vboot) 1 0 ?st
     = (0x5000, \<lparr> g_rollback_recovery_mode = 0,
         trace = [LibInit, Call Startup 0, Call ContinueSelfTest 0, Call AssertPhysicalPresence 0,
                  Call GetFlags 0, Call (Read 0x1005 4) 0, Call (Read 0x1002 8) 0,
                  Call (GetPermissions 0x1002) 0, Call (Read 0x1003 4) 0],
         tpm = provisioned [5, 0, 3, 0, 0x47, 0x52, 0x57, 0x4C] [5, 0, 3, 0] [0, 0, 0, 0] [] \<rparr>)"
    by (simp add: SetupTPM_def SetupTPM_spaces_def RecoverKernelSpace_def
        GetSpacesInitialized_def rof_defs Memcmp_eq_0_iff uint32_of_bytes_def tlcl_defs sim_defs)
  from RollbackKernelRecovery_ignores_SetupTPM [of vboot "sim_device vboot" 0 ?st]
  obtain evs where
    "trace (snd (SetupTPM vboot (sim_device vboot) 1 0 ?st)) = trace ?st @ evs"
    "RollbackKernelRecovery vboot (sim_device vboot) 0 ?st
       = TlclSetGlobalLock (sim_device vboot) (snd (SetupTPM vboot (sim_device vboot) 1 0 ?st))"
    by auto
  with run show ?thesis
    by (simp add: tlcl_defs sim_defs)
qed

subsection \<open>SafeWrite\<close>

text \<open>
  C7 (amended). If the first \<open>TlclWrite\<close> of \<open>SafeWrite\<close> returns a code other than
  MaxNVWrites, \<open>SafeWrite\<close> is that one write: it returns the code, with no clear and no
  retry. If it returns MaxNVWrites, \<open>SafeWrite\<close> runs the clear sequence ForceClear,
  SetEnable, SetDeactivated(0) once, stopping at the first step that fails and then
  returning the status of that step without a second write; when the three steps
  succeed it writes once more and returns the status of that write, whatever it is.
\<close>

theorem SafeWrite_clear_then_retry:
  "(fst (TlclWrite dev i d n st) \<noteq> TPM_E_MAXNVWRITES c \<longrightarrow>
      SafeWrite c dev i d n st = TlclWrite dev i d n st \<and>
      trace (snd (SafeWrite c dev i d n st))
        = trace st @ [Call (Write i d n) (fst (SafeWrite c dev i d n st))]) \<and>
   (fst (TlclWrite dev i d n st) = TPM_E_MAXNVWRITES c \<longrightarrow>
      (\<exists>r evs.
         fst (SafeWrite c dev i d n st) = r \<and>
         trace (snd (SafeWrite c dev i d n st))
           = trace st @ Call (Write i d n) (TPM_E_MAXNVWRITES c) # evs \<and>
         (r \<noteq> TPM_SUCCESS c \<and> evs = [Call ForceClear r]
        \<or> r \<noteq> TPM_SUCCESS c \<and>
           evs = [Call ForceClear (TPM_SUCCESS c), Call SetEnable r]
        \<or> r \<noteq> TPM_SUCCESS c \<and>
           evs = [Call ForceClear (TPM_SUCCESS c), Call SetEnable (TPM_SUCCESS c),
                  Call (SetDeactivated 0) r]
        \<or> evs = [Call ForceClear (TPM_SUCCESS c), Call SetEnable (TPM_SUCCESS c),
                  Call (SetDeactivated 0) (TPM_SUCCESS c), Call (Write i d n) r])))"
  by (auto simp: SafeWrite_def TPMClearAndReenable_def RETURN_ON_FAILURE_def tlcl_defs
      split: prod.splits if_splits)

theorem SafeWrite_clear_then_retry_witness:
  "SafeWrite vboot (sim_device vboot) 0x1001 [7, 0, 0, 0] 4
       (boot (provisioned [0, 0, 0, 0, 0x47, 0x52, 0x57, 0x4C] [0, 0, 0, 0] [0, 0, 0, 0] [0x48]))
     = (0, \<lparr> g_rollback_recovery_mode = 0,
             trace = [Call (Write 0x1001 [7, 0, 0, 0] 4) 0x48, Call ForceClear 0,
                      Call SetEnable 0, Call (SetDeactivated 0) 0,
                      Call (Write 0x1001 [7, 0, 0, 0] 4) 0],
             tpm = \<lparr> nv = [(0x1001, 0x8001, [7, 0, 0, 0]),
                           (0x1002, 0x1, [0, 0, 0, 0, 0x47, 0x52, 0x57, 0x4C]),
                           (0x1004, 0x8001, [0, 0, 0, 0]),
                           (0x1005, 0x8001, [0, 0, 0, 0]),
                           (0x1006, 0x8001, [0, 0, 0, 0]),
                           (0x1003, 0x8001, [0, 0, 0, 0])],
                     flag_disable = 0, flag_deactivated = 0, faults = [] \<rparr> \<rparr>)"
  using SafeWrite_clear_then_retry [where dev = "sim_device vboot" and i = "0x1001"
      and d = "[7, 0, 0, 0]" and n = 4 and c = vboot and st =
      "boot (provisioned [0, 0, 0, 0, 0x47, 0x52, 0x57, 0x4C] [0, 0, 0, 0] [0, 0, 0, 0] [0x48])"]
  by (simp add: SafeWrite_def TPMClearAndReenable_def rof_defs tlcl_defs sim_defs)

text \<open>The claim as stated fails where a step of the clear sequence fails: the first
  write returns MaxNVWrites (0x48), ForceClear returns the error 1, and \<open>SafeWrite\<close>
  returns 1 after these two calls: the clear sequence is not completed, the write is
  not retried, and the status returned is not that of a retry.\<close>

theorem SafeWrite_no_retry_counterexample:
  "fst (TlclWrite (sim_device vboot) 0x1001 [7, 0, 0, 0] 4
       (boot (provisioned [0, 0, 0, 0, 0x47, 0x52, 0x57, 0x4C] [0, 0, 0, 0] [0, 0, 0, 0] [0x48, 1])))
     = TPM_E_MAXNVWRITES vboot \<and>
   SafeWrite vboot (sim_device vboot) 0x1001 [7, 0, 0, 0] 4
       (boot (provisioned [0, 0, 0, 0, 0x47, 0x52, 0x57, 0x4C] [0, 0, 0, 0] [0, 0, 0, 0] [0x48, 1]))
     = (1, \<lparr> g_rollback_recovery_mode = 0,
             trace = [Call (Write 0x1001 [7, 0, 0, 0] 4) 0x48, Call ForceClear 1],
             tpm = provisioned [0, 0, 0, 0, 0x47, 0x52, 0x57, 0x4C] [0, 0, 0, 0] [0, 0, 0, 0] [] \<rparr>)"
  by (simp add: SafeWrite_def TPMClearAndReenable_def rof_defs tlcl_defs sim_defs)

subsection \<open>SetupTPM: the TPM is disabled or deactivated\<close>

text \<open>
  C8. Let the calls of \<open>SetupTPM\<close> up to \<open>TlclGetFlags\<close> succeed, and let GetFlags
  report \<open>disable\<close> and \<open>deactivated\<close>. If one of them is set, the next call is
  \<open>TlclSetEnable\<close>; when it succeeds the next call is \<open>TlclSetDeactivated(0)\<close>; a call
  that fails ends the function with its status, and when both succeed the function
  returns MustReboot in the state left by these two calls, so without any call of the
  recovery, initialization, backup, distrust-flag or developer-mode steps. If neither
  flag is set, \<open>SetupTPM\<close> continues with the call of \<open>RecoverKernelSpace\<close>: the call
  that follows GetFlags is the read of \<open>KERNEL_MUST_USE_BACKUP\<close>, not SetEnable or
  SetDeactivated.
\<close>

theorem SetupTPM_enable_then_reboot:
  assumes "TlclStartup dev (TlclLibInit dev st) = (TPM_SUCCESS c, st1)"
    and "TlclContinueSelfTest dev st1 = (TPM_SUCCESS c, st2)"
    and "TlclAssertPhysicalPresence dev st2 = (TPM_SUCCESS c, st3)"
    and "TlclGetFlags dev st3 = ((TPM_SUCCESS c, disable, deactivated), st4)"
  shows "(disable \<noteq> 0 \<or> deactivated \<noteq> 0 \<longrightarrow>
           (case TlclSetEnable dev st4 of
              (r5, st5) \<Rightarrow>
                (case TlclSetDeactivated dev 0 st5 of
                   (r6, st6) \<Rightarrow>
                     trace st5 = trace st4 @ [Call SetEnable r5] \<and>
                     trace st6 = trace st5 @ [Call (SetDeactivated 0) r6] \<and>
                     SetupTPM c dev recovery_mode developer_mode st =
                       (if r5 \<noteq> TPM_SUCCESS c then (r5, st5)
                        else if r6 \<noteq> TPM_SUCCESS c then (r6, st6)
                        else (TPM_E_MUST_REBOOT c, st6))))) \<and>
         (disable = 0 \<and> deactivated = 0 \<longrightarrow>
            SetupTPM c dev recovery_mode developer_mode st
              = SetupTPM_spaces c dev recovery_mode developer_mode st4 \<and>
            (\<exists>r evs. trace (snd (SetupTPM c dev recovery_mode developer_mode st))
                = trace st4 @ Call (Read (KERNEL_MUST_USE_BACKUP_NV_INDEX c) 4) r # evs))"
proof (intro conjI impI)
  assume "disable \<noteq> 0 \<or> deactivated \<noteq> 0"
  with assms show "case TlclSetEnable dev st4 of
              (r5, st5) \<Rightarrow>
                (case TlclSetDeactivated dev 0 st5 of
                   (r6, st6) \<Rightarrow>
                     trace st5 = trace st4 @ [Call SetEnable r5] \<and>
                     trace st6 = trace st5 @ [Call (SetDeactivated 0) r6] \<and>
                     SetupTPM c dev recovery_mode developer_mode st =
                       (if r5 \<noteq> TPM_SUCCESS c then (r5, st5)
                        else if r6 \<noteq> TPM_SUCCESS c then (r6, st6)
                        else (TPM_E_MUST_REBOOT c, st6)))"
    by (auto simp: SetupTPM_def rof_defs TlclSetEnable_def TlclSetDeactivated_def tlcl_status_def
        split: prod.splits)
next
  assume "disable = 0 \<and> deactivated = 0"
  with assms show eq: "SetupTPM c dev recovery_mode developer_mode st
              = SetupTPM_spaces c dev recovery_mode developer_mode st4"
    by (simp add: SetupTPM_def rof_defs)
  show "\<exists>r evs. trace (snd (SetupTPM c dev recovery_mode developer_mode st))
                = trace st4 @ Call (Read (KERNEL_MUST_USE_BACKUP_NV_INDEX c) 4) r # evs"
    unfolding eq by (rule SetupTPM_spaces_first_event)
qed

theorem SetupTPM_enable_then_reboot_witness:
  "SetupTPM vboot (sim_device vboot) 0 0
      (boot (provisioned [5, 0, 3, 0, 0x47, 0x52, 0x57, 0x4C] [5, 0, 3, 0] [0, 0, 0, 0] []
               \<lparr> flag_deactivated := 1 \<rparr>))
     = (TPM_E_MUST_REBOOT vboot,
        \<lparr> g_rollback_recovery_mode = 0,
          trace = [LibInit, Call Startup 0, Call ContinueSelfTest 0,
                   Call AssertPhysicalPresence 0, Call GetFlags 0, Call SetEnable 0,
                   Call (SetDeactivated 0) 0],
          tpm = provisioned [5, 0, 3, 0, 0x47, 0x52, 0x57, 0x4C] [5, 0, 3, 0] [0, 0, 0, 0] []
                  \<lparr> flag_deactivated := 1 \<rparr> \<rparr>)"
proof -
  let ?t = "provisioned [5, 0, 3, 0, 0x47, 0x52, 0x57, 0x4C] [5, 0, 3, 0] [0, 0, 0, 0] []
               \<lparr> flag_deactivated := 1 \<rparr>"
  let ?dev = "sim_device vboot"
  let ?st1 = "snd (TlclStartup ?dev (TlclLibInit ?dev (boot ?t)))"
  let ?st2 = "snd (TlclContinueSelfTest ?dev ?st1)"
  let ?st3 = "snd (TlclAssertPhysicalPresence ?dev ?st2)"
  let ?st4 = "snd (TlclGetFlags ?dev ?st3)"
  have 1: "TlclStartup ?dev (TlclLibInit ?dev (boot ?t)) = (TPM_SUCCESS vboot, ?st1)"
    by (simp add: tlcl_defs sim_defs)
  have 2: "TlclContinueSelfTest ?dev ?st1 = (TPM_SUCCESS vboot, ?st2)"
    by (simp add: tlcl_defs sim_defs)
  have 3: "TlclAssertPhysicalPresence ?dev ?st2 = (TPM_SUCCESS vboot, ?st3)"
    by (simp add: tlcl_defs sim_defs)
  have 4: "TlclGetFlags ?dev ?st3 = ((TPM_SUCCESS vboot, 0, 1), ?st4)"
    by (simp add: tlcl_defs sim_defs)
  from SetupTPM_enable_then_reboot [OF 1 2 3 4, of 0 0]
  show ?thesis
    by (simp add: tlcl_defs sim_defs split: prod.splits)
qed

subsection \<open>InitializeSpaces\<close>

lemma ROF_assoc:
  "RETURN_ON_FAILURE c (RETURN_ON_FAILURE c f g) k = RETURN_ON_FAILURE c f (RETURN_ON_FAILURE c g k)"
  by (rule ext) (simp add: RETURN_ON_FAILURE_def split: prod.splits)

lemma ROF_return: "RETURN_ON_FAILURE c (\<lambda>st. (TPM_SUCCESS c, st)) k = k"
  by (rule ext) (simp add: RETURN_ON_FAILURE_def)

lemma InitializeSpaces_split:
  "InitializeSpaces c dev =
     RETURN_ON_FAILURE c (InitializeSpaces_provision c dev)
    (RETURN_ON_FAILURE c (TlclDefineSpace dev (TPM_IS_INITIALIZED_NV_INDEX c)
                            (TPM_NV_PER_GLOBALLOCK c OR TPM_NV_PER_PPWRITE c) 4)
    (\<lambda>st. (TPM_SUCCESS c, st)))"
  by (simp add: InitializeSpaces_def InitializeSpaces_provision_def Let_def ROF_assoc ROF_return)

lemma dw_here:
  "Call (Write i d n) (TPM_SUCCESS c) \<in> set ys \<Longrightarrow>
   defined_and_written c i p d n (Call (DefineSpace i p n) (TPM_SUCCESS c) # ys)"
  by (simp add: defined_and_written_def)

lemma dropWhile_append_found:
  "\<exists>x\<in>set xs. \<not> P x \<Longrightarrow> dropWhile P (xs @ ys) = dropWhile P xs @ ys"
  by (induction xs) auto

lemma dropWhile_member_found: "y \<in> set (dropWhile P xs) \<Longrightarrow> \<exists>x\<in>set xs. \<not> P x"
  by (induction xs) (auto split: if_splits)

lemma dw_append1: "defined_and_written c i p d n xs \<Longrightarrow> defined_and_written c i p d n (xs @ ys)"
proof -
  let ?P = "\<lambda>e. e \<noteq> Call (DefineSpace i p n) (TPM_SUCCESS c)"
  assume "defined_and_written c i p d n xs"
  then have w: "Call (Write i d n) (TPM_SUCCESS c) \<in> set (dropWhile ?P xs)"
    unfolding defined_and_written_def .
  from dropWhile_member_found [OF w] have "\<exists>x\<in>set xs. \<not> ?P x" .
  from dropWhile_append_found [OF this]
  have "dropWhile ?P (xs @ ys) = dropWhile ?P xs @ ys" .
  with w show ?thesis unfolding defined_and_written_def by simp
qed

lemma dw_append2: "defined_and_written c i p d n ys \<Longrightarrow> defined_and_written c i p d n (xs @ ys)"
  by (auto simp: defined_and_written_def dropWhile_append dest: set_dropWhileD)

lemma dw_Cons: "defined_and_written c i p d n ys \<Longrightarrow> defined_and_written c i p d n (x # ys)"
  using dw_append2 [of c i p d n ys "[x]"] by simp

lemma ROF_status_successE:
  assumes "RETURN_ON_FAILURE c (tlcl_status call cmd) k st = (TPM_SUCCESS c, st')"
  obtains st1 where "trace st1 = trace st @ [Call call (TPM_SUCCESS c)]"
    and "k st1 = (TPM_SUCCESS c, st')"
proof -
  obtain r t where cmd: "cmd (tpm st) = (r, t)" by (cases "cmd (tpm st)")
  let ?st1 = "st\<lparr>trace := trace st @ [Call call r], tpm := t\<rparr>"
  from assms cmd have "r = TPM_SUCCESS c" and "k ?st1 = (TPM_SUCCESS c, st')"
    by (auto simp: RETURN_ON_FAILURE_def tlcl_status_def split: if_splits)
  then show thesis using that [of ?st1] by simp
qed

lemma SafeWrite_success_events:
  assumes "SafeWrite c dev i d n st = (TPM_SUCCESS c, st')"
  shows "\<exists>es. trace st' = trace st @ es \<and> Call (Write i d n) (TPM_SUCCESS c) \<in> set es"
  using assms
  by (auto simp: SafeWrite_def TPMClearAndReenable_def RETURN_ON_FAILURE_def tlcl_defs
      split: prod.splits if_splits)

lemma define_write_successE:
  assumes "RETURN_ON_FAILURE c (TlclDefineSpace dev i p n)
            (RETURN_ON_FAILURE c (SafeWrite c dev i d n) k) st = (TPM_SUCCESS c, st')"
  obtains st2 es where "trace st2 = trace st @ es" and "defined_and_written c i p d n es"
    and "k st2 = (TPM_SUCCESS c, st')"
proof -
  from assms obtain st1 where 1: "trace st1 = trace st @ [Call (DefineSpace i p n) (TPM_SUCCESS c)]"
    and r1: "RETURN_ON_FAILURE c (SafeWrite c dev i d n) k st1 = (TPM_SUCCESS c, st')"
    unfolding TlclDefineSpace_def by (rule ROF_status_successE)
  obtain r2 st2 where w: "SafeWrite c dev i d n st1 = (r2, st2)"
    by (cases "SafeWrite c dev i d n st1")
  with r1 have ok: "r2 = TPM_SUCCESS c" and k: "k st2 = (TPM_SUCCESS c, st')"
    by (auto simp: RETURN_ON_FAILURE_def split: if_splits)
  from SafeWrite_success_events [OF w [unfolded ok]]
  obtain es where es: "trace st2 = trace st1 @ es" "Call (Write i d n) (TPM_SUCCESS c) \<in> set es"
    by blast
  from 1 es have "trace st2 = trace st @ (Call (DefineSpace i p n) (TPM_SUCCESS c) # es)"
    by simp
  moreover have "defined_and_written c i p d n (Call (DefineSpace i p n) (TPM_SUCCESS c) # es)"
    using es(2) by (rule dw_here)
  ultimately show thesis using k by (rule that)
qed

lemma InitializeSpaces_provision_success:
  assumes "InitializeSpaces_provision c dev st = (TPM_SUCCESS c, st')"
  shows "\<exists>pre. trace st' = trace st @ pre \<and>
     defined_and_written c (FIRMWARE_VERSIONS_NV_INDEX c)
       (TPM_NV_PER_GLOBALLOCK c OR TPM_NV_PER_PPWRITE c) (bytes_of_uint32 0) 4 pre \<and>
     defined_and_written c (KERNEL_VERSIONS_NV_INDEX c)
       (TPM_NV_PER_PPWRITE c) (KERNEL_SPACE_INIT_DATA c) (KERNEL_SPACE_SIZE c) pre \<and>
     defined_and_written c (KERNEL_VERSIONS_BACKUP_NV_INDEX c)
       (TPM_NV_PER_GLOBALLOCK c OR TPM_NV_PER_PPWRITE c) (bytes_of_uint32 0) 4 pre \<and>
     defined_and_written c (KERNEL_MUST_USE_BACKUP_NV_INDEX c)
       (TPM_NV_PER_GLOBALLOCK c OR TPM_NV_PER_PPWRITE c) (bytes_of_uint32 0) 4 pre \<and>
     defined_and_written c (DEVELOPER_MODE_NV_INDEX c)
       (TPM_NV_PER_GLOBALLOCK c OR TPM_NV_PER_PPWRITE c) (bytes_of_uint32 0) 4 pre"
proof -
  let ?fp = "TPM_NV_PER_GLOBALLOCK c OR TPM_NV_PER_PPWRITE c"
  let ?z = "bytes_of_uint32 0"
  note run = assms [unfolded InitializeSpaces_provision_def InitializeKernelVersionsSpaces_def
      Let_def ROF_assoc ROF_return TlclSetNvLocked_def]
  from run obtain s1 where t1: "trace s1 = trace st @ [Call SetNvLocked (TPM_SUCCESS c)]"
    and r1: "RETURN_ON_FAILURE c (TlclDefineSpace dev (FIRMWARE_VERSIONS_NV_INDEX c) ?fp 4)
      (RETURN_ON_FAILURE c (SafeWrite c dev (FIRMWARE_VERSIONS_NV_INDEX c) ?z 4)
      (RETURN_ON_FAILURE c (TlclDefineSpace dev (KERNEL_VERSIONS_NV_INDEX c) (TPM_NV_PER_PPWRITE c) (KERNEL_SPACE_SIZE c))
      (RETURN_ON_FAILURE c (SafeWrite c dev (KERNEL_VERSIONS_NV_INDEX c) (KERNEL_SPACE_INIT_DATA c) (KERNEL_SPACE_SIZE c))
      (RETURN_ON_FAILURE c (TlclDefineSpace dev (KERNEL_VERSIONS_BACKUP_NV_INDEX c) ?fp 4)
      (RETURN_ON_FAILURE c (SafeWrite c dev (KERNEL_VERSIONS_BACKUP_NV_INDEX c) ?z 4)
      (RETURN_ON_FAILURE c (TlclDefineSpace dev (KERNEL_MUST_USE_BACKUP_NV_INDEX c) ?fp 4)
      (RETURN_ON_FAILURE c (SafeWrite c dev (KERNEL_MUST_USE_BACKUP_NV_INDEX c) ?z 4)
      (RETURN_ON_FAILURE c (TlclDefineSpace dev (DEVELOPER_MODE_NV_INDEX c) ?fp 4)
      (RETURN_ON_FAILURE c (SafeWrite c dev (DEVELOPER_MODE_NV_INDEX c) ?z 4)
      (\<lambda>st. (TPM_SUCCESS c, st))))))))))) s1 = (TPM_SUCCESS c, st')"
    by (rule ROF_status_successE)
  from r1 obtain s2 e2 where t2: "trace s2 = trace s1 @ e2"
    and d2: "defined_and_written c (FIRMWARE_VERSIONS_NV_INDEX c) ?fp ?z 4 e2"
    and r2: "RETURN_ON_FAILURE c (TlclDefineSpace dev (KERNEL_VERSIONS_NV_INDEX c) (TPM_NV_PER_PPWRITE c) (KERNEL_SPACE_SIZE c))
      (RETURN_ON_FAILURE c (SafeWrite c dev (KERNEL_VERSIONS_NV_INDEX c) (KERNEL_SPACE_INIT_DATA c) (KERNEL_SPACE_SIZE c))
      (RETURN_ON_FAILURE c (TlclDefineSpace dev (KERNEL_VERSIONS_BACKUP_NV_INDEX c) ?fp 4)
      (RETURN_ON_FAILURE c (SafeWrite c dev (KERNEL_VERSIONS_BACKUP_NV_INDEX c) ?z 4)
      (RETURN_ON_FAILURE c (TlclDefineSpace dev (KERNEL_MUST_USE_BACKUP_NV_INDEX c) ?fp 4)
      (RETURN_ON_FAILURE c (SafeWrite c dev (KERNEL_MUST_USE_BACKUP_NV_INDEX c) ?z 4)
      (RETURN_ON_FAILURE c (TlclDefineSpace dev (DEVELOPER_MODE_NV_INDEX c) ?fp 4)
      (RETURN_ON_FAILURE c (SafeWrite c dev (DEVELOPER_MODE_NV_INDEX c) ?z 4)
      (\<lambda>st. (TPM_SUCCESS c, st))))))))) s2 = (TPM_SUCCESS c, st')"
    by (rule define_write_successE)
  from r2 obtain s3 e3 where t3: "trace s3 = trace s2 @ e3"
    and d3: "defined_and_written c (KERNEL_VERSIONS_NV_INDEX c) (TPM_NV_PER_PPWRITE c)
               (KERNEL_SPACE_INIT_DATA c) (KERNEL_SPACE_SIZE c) e3"
    and r3: "RETURN_ON_FAILURE c (TlclDefineSpace dev (KERNEL_VERSIONS_BACKUP_NV_INDEX c) ?fp 4)
      (RETURN_ON_FAILURE c (SafeWrite c dev (KERNEL_VERSIONS_BACKUP_NV_INDEX c) ?z 4)
      (RETURN_ON_FAILURE c (TlclDefineSpace dev (KERNEL_MUST_USE_BACKUP_NV_INDEX c) ?fp 4)
      (RETURN_ON_FAILURE c (SafeWrite c dev (KERNEL_MUST_USE_BACKUP_NV_INDEX c) ?z 4)
      (RETURN_ON_FAILURE c (TlclDefineSpace dev (DEVELOPER_MODE_NV_INDEX c) ?fp 4)
      (RETURN_ON_FAILURE c (SafeWrite c dev (DEVELOPER_MODE_NV_INDEX c) ?z 4)
      (\<lambda>st. (TPM_SUCCESS c, st))))))) s3 = (TPM_SUCCESS c, st')"
    by (rule define_write_successE)
  from r3 obtain s4 e4 where t4: "trace s4 = trace s3 @ e4"
    and d4: "defined_and_written c (KERNEL_VERSIONS_BACKUP_NV_INDEX c) ?fp ?z 4 e4"
    and r4: "RETURN_ON_FAILURE c (TlclDefineSpace dev (KERNEL_MUST_USE_BACKUP_NV_INDEX c) ?fp 4)
      (RETURN_ON_FAILURE c (SafeWrite c dev (KERNEL_MUST_USE_BACKUP_NV_INDEX c) ?z 4)
      (RETURN_ON_FAILURE c (TlclDefineSpace dev (DEVELOPER_MODE_NV_INDEX c) ?fp 4)
      (RETURN_ON_FAILURE c (SafeWrite c dev (DEVELOPER_MODE_NV_INDEX c) ?z 4)
      (\<lambda>st. (TPM_SUCCESS c, st))))) s4 = (TPM_SUCCESS c, st')"
    by (rule define_write_successE)
  from r4 obtain s5 e5 where t5: "trace s5 = trace s4 @ e5"
    and d5: "defined_and_written c (KERNEL_MUST_USE_BACKUP_NV_INDEX c) ?fp ?z 4 e5"
    and r5: "RETURN_ON_FAILURE c (TlclDefineSpace dev (DEVELOPER_MODE_NV_INDEX c) ?fp 4)
      (RETURN_ON_FAILURE c (SafeWrite c dev (DEVELOPER_MODE_NV_INDEX c) ?z 4)
      (\<lambda>st. (TPM_SUCCESS c, st))) s5 = (TPM_SUCCESS c, st')"
    by (rule define_write_successE)
  from r5 obtain s6 e6 where t6: "trace s6 = trace s5 @ e6"
    and d6: "defined_and_written c (DEVELOPER_MODE_NV_INDEX c) ?fp ?z 4 e6"
    and r6: "(\<lambda>st. (TPM_SUCCESS c, st)) s6 = (TPM_SUCCESS c, st')"
    by (rule define_write_successE)
  let ?pre = "Call SetNvLocked (TPM_SUCCESS c) # e2 @ e3 @ e4 @ e5 @ e6"
  from r6 t1 t2 t3 t4 t5 t6 have "trace st' = trace st @ ?pre" by simp
  moreover from d2 have "defined_and_written c (FIRMWARE_VERSIONS_NV_INDEX c) ?fp ?z 4 ?pre"
    by (intro dw_Cons dw_append1)
  moreover from d3 have "defined_and_written c (KERNEL_VERSIONS_NV_INDEX c)
      (TPM_NV_PER_PPWRITE c) (KERNEL_SPACE_INIT_DATA c) (KERNEL_SPACE_SIZE c) ?pre"
    by (intro dw_Cons dw_append2 [of _ _ _ _ _ _ e2] dw_append1)
  moreover from d4 have "defined_and_written c (KERNEL_VERSIONS_BACKUP_NV_INDEX c) ?fp ?z 4 ?pre"
    by (intro dw_Cons dw_append2 [of _ _ _ _ _ _ e2] dw_append2 [of _ _ _ _ _ _ e3] dw_append1)
  moreover from d5 have "defined_and_written c (KERNEL_MUST_USE_BACKUP_NV_INDEX c) ?fp ?z 4 ?pre"
    by (intro dw_Cons dw_append2 [of _ _ _ _ _ _ e2] dw_append2 [of _ _ _ _ _ _ e3]
        dw_append2 [of _ _ _ _ _ _ e4] dw_append1)
  moreover from d6 have "defined_and_written c (DEVELOPER_MODE_NV_INDEX c) ?fp ?z 4 ?pre"
    by (intro dw_Cons dw_append2)
  ultimately show ?thesis by blast
qed

lemma emits_provision_no_tombstone:
  assumes "TPM_IS_INITIALIZED_NV_INDEX c \<notin>
     {FIRMWARE_VERSIONS_NV_INDEX c, KERNEL_VERSIONS_NV_INDEX c, KERNEL_VERSIONS_BACKUP_NV_INDEX c,
      KERNEL_MUST_USE_BACKUP_NV_INDEX c, DEVELOPER_MODE_NV_INDEX c}"
  shows "emits (\<lambda>e. (\<forall>p n r. e \<noteq> Call (DefineSpace (TPM_IS_INITIALIZED_NV_INDEX c) p n) r) \<and>
                    (\<forall>d n r. e \<noteq> Call (Write (TPM_IS_INITIALIZED_NV_INDEX c) d n) r))
           (InitializeSpaces_provision c dev)"
  unfolding InitializeSpaces_provision_def InitializeKernelVersionsSpaces_def Let_def
    TlclSetNvLocked_def TlclDefineSpace_def
  using assms by (intro emits_intros; auto)

text \<open>
  C9. Let the index of \<open>TPM_IS_INITIALIZED\<close> differ from the indices of the other five
  spaces. \<open>InitializeSpaces\<close> never writes to \<open>TPM_IS_INITIALIZED\<close>. If it defines
  that space at all, the DefineSpace is the last call it makes, its status is the
  result of the function, no earlier call defines that space, and before it each of
  \<open>FIRMWARE_VERSIONS\<close>, \<open>KERNEL_VERSIONS\<close>, \<open>KERNEL_VERSIONS_BACKUP\<close>,
  \<open>KERNEL_MUST_USE_BACKUP\<close> and \<open>DEVELOPER_MODE\<close> was defined with success and then
  written with success with its initial value.
\<close>

theorem InitializeSpaces_tombstone_last:
  assumes "TPM_IS_INITIALIZED_NV_INDEX c \<notin>
     {FIRMWARE_VERSIONS_NV_INDEX c, KERNEL_VERSIONS_NV_INDEX c, KERNEL_VERSIONS_BACKUP_NV_INDEX c,
      KERNEL_MUST_USE_BACKUP_NV_INDEX c, DEVELOPER_MODE_NV_INDEX c}"
  shows "\<exists>evs. trace (snd (InitializeSpaces c dev st)) = trace st @ evs \<and>
     list_all (\<lambda>e. \<forall>d n r. e \<noteq> Call (Write (TPM_IS_INITIALIZED_NV_INDEX c) d n) r) evs \<and>
     ((\<exists>p n r. Call (DefineSpace (TPM_IS_INITIALIZED_NV_INDEX c) p n) r \<in> set evs) \<longrightarrow>
        (\<exists>pre. evs = pre @ [Call (DefineSpace (TPM_IS_INITIALIZED_NV_INDEX c)
                                (TPM_NV_PER_GLOBALLOCK c OR TPM_NV_PER_PPWRITE c) 4)
                              (fst (InitializeSpaces c dev st))] \<and>
           list_all (\<lambda>e. \<forall>p n r. e \<noteq> Call (DefineSpace (TPM_IS_INITIALIZED_NV_INDEX c) p n) r) pre \<and>
           defined_and_written c (FIRMWARE_VERSIONS_NV_INDEX c)
             (TPM_NV_PER_GLOBALLOCK c OR TPM_NV_PER_PPWRITE c) (bytes_of_uint32 0) 4 pre \<and>
           defined_and_written c (KERNEL_VERSIONS_NV_INDEX c)
             (TPM_NV_PER_PPWRITE c) (KERNEL_SPACE_INIT_DATA c) (KERNEL_SPACE_SIZE c) pre \<and>
           defined_and_written c (KERNEL_VERSIONS_BACKUP_NV_INDEX c)
             (TPM_NV_PER_GLOBALLOCK c OR TPM_NV_PER_PPWRITE c) (bytes_of_uint32 0) 4 pre \<and>
           defined_and_written c (KERNEL_MUST_USE_BACKUP_NV_INDEX c)
             (TPM_NV_PER_GLOBALLOCK c OR TPM_NV_PER_PPWRITE c) (bytes_of_uint32 0) 4 pre \<and>
           defined_and_written c (DEVELOPER_MODE_NV_INDEX c)
             (TPM_NV_PER_GLOBALLOCK c OR TPM_NV_PER_PPWRITE c) (bytes_of_uint32 0) 4 pre))"
proof -
  let ?I = "TPM_IS_INITIALIZED_NV_INDEX c"
  let ?fp = "TPM_NV_PER_GLOBALLOCK c OR TPM_NV_PER_PPWRITE c"
  let ?N = "\<lambda>e. (\<forall>p n r. e \<noteq> Call (DefineSpace ?I p n) r) \<and>
                 (\<forall>d n r. e \<noteq> Call (Write ?I d n) r)"
  obtain r10 st10 where f: "InitializeSpaces_provision c dev st = (r10, st10)"
    by (cases "InitializeSpaces_provision c dev st")
  from emitsD [OF emits_provision_no_tombstone [OF assms] f]
  obtain pre where pre: "trace st10 = trace st @ pre" "list_all ?N pre" by blast
  show ?thesis
  proof (cases "r10 = TPM_SUCCESS c")
    case False
    with f have "InitializeSpaces c dev st = (r10, st10)"
      by (simp add: InitializeSpaces_split RETURN_ON_FAILURE_def)
    with pre have "trace (snd (InitializeSpaces c dev st)) = trace st @ pre" by simp
    moreover from pre(2) have
      "list_all (\<lambda>e. \<forall>d n r. e \<noteq> Call (Write ?I d n) r) pre"
      "\<not> (\<exists>p n r. Call (DefineSpace ?I p n) r \<in> set pre)"
      by (auto simp: list_all_iff)
    ultimately show ?thesis by blast
  next
    case True
    obtain r st11 where last: "TlclDefineSpace dev ?I ?fp 4 st10 = (r, st11)"
      by (cases "TlclDefineSpace dev ?I ?fp 4 st10")
    then have t11: "trace st11 = trace st10 @ [Call (DefineSpace ?I ?fp 4) r]"
      by (auto simp: TlclDefineSpace_def tlcl_status_def split: prod.splits)
    from f True last have run: "InitializeSpaces c dev st = (r, st11)"
      by (simp add: InitializeSpaces_split RETURN_ON_FAILURE_def)
    from InitializeSpaces_provision_success [OF f [unfolded True]] pre(1)
    have dw: "defined_and_written c (FIRMWARE_VERSIONS_NV_INDEX c) ?fp (bytes_of_uint32 0) 4 pre"
      "defined_and_written c (KERNEL_VERSIONS_NV_INDEX c)
         (TPM_NV_PER_PPWRITE c) (KERNEL_SPACE_INIT_DATA c) (KERNEL_SPACE_SIZE c) pre"
      "defined_and_written c (KERNEL_VERSIONS_BACKUP_NV_INDEX c) ?fp (bytes_of_uint32 0) 4 pre"
      "defined_and_written c (KERNEL_MUST_USE_BACKUP_NV_INDEX c) ?fp (bytes_of_uint32 0) 4 pre"
      "defined_and_written c (DEVELOPER_MODE_NV_INDEX c) ?fp (bytes_of_uint32 0) 4 pre"
      by auto
    let ?evs = "pre @ [Call (DefineSpace ?I ?fp 4) r]"
    from run t11 pre(1) have "trace (snd (InitializeSpaces c dev st)) = trace st @ ?evs"
      by simp
    moreover from pre(2) have "list_all (\<lambda>e. \<forall>d n r. e \<noteq> Call (Write ?I d n) r) ?evs"
      by (auto simp: list_all_iff)
    moreover from pre(2) have
      "list_all (\<lambda>e. \<forall>p n r. e \<noteq> Call (DefineSpace ?I p n) r) pre"
      by (auto simp: list_all_iff)
    moreover from run have "fst (InitializeSpaces c dev st) = r" by simp
    ultimately show ?thesis using dw by blast
  qed
qed

theorem InitializeSpaces_tombstone_last_witness:
  "InitializeSpaces vboot (sim_device vboot) (boot (unprovisioned []))
     = (0, \<lparr> g_rollback_recovery_mode = 0,
             trace = [Call SetNvLocked 0,
                      Call (DefineSpace 0x1001 0x8001 4) 0, Call (Write 0x1001 [0, 0, 0, 0] 4) 0,
                      Call (DefineSpace 0x1002 0x1 8) 0,
                      Call (Write 0x1002 [0, 0, 0, 0, 0x47, 0x52, 0x57, 0x4C] 8) 0,
                      Call (DefineSpace 0x1004 0x8001 4) 0, Call (Write 0x1004 [0, 0, 0, 0] 4) 0,
                      Call (DefineSpace 0x1005 0x8001 4) 0, Call (Write 0x1005 [0, 0, 0, 0] 4) 0,
                      Call (DefineSpace 0x1006 0x8001 4) 0, Call (Write 0x1006 [0, 0, 0, 0] 4) 0,
                      Call (DefineSpace 0x1003 0x8001 4) 0],
             tpm = provisioned [0, 0, 0, 0, 0x47, 0x52, 0x57, 0x4C] [0, 0, 0, 0] [0, 0, 0, 0] [] \<rparr>) \<and>
   defined_and_written vboot 0x1006 0x8001 [0, 0, 0, 0] 4
     [Call SetNvLocked 0,
      Call (DefineSpace 0x1001 0x8001 4) 0, Call (Write 0x1001 [0, 0, 0, 0] 4) 0,
      Call (DefineSpace 0x1002 0x1 8) 0,
      Call (Write 0x1002 [0, 0, 0, 0, 0x47, 0x52, 0x57, 0x4C] 8) 0,
      Call (DefineSpace 0x1004 0x8001 4) 0, Call (Write 0x1004 [0, 0, 0, 0] 4) 0,
      Call (DefineSpace 0x1005 0x8001 4) 0, Call (Write 0x1005 [0, 0, 0, 0] 4) 0,
      Call (DefineSpace 0x1006 0x8001 4) 0, Call (Write 0x1006 [0, 0, 0, 0] 4) 0]"
proof -
  have run: "InitializeSpaces vboot (sim_device vboot) (boot (unprovisioned []))
     = (0, \<lparr> g_rollback_recovery_mode = 0,
             trace = [Call SetNvLocked 0,
                      Call (DefineSpace 0x1001 0x8001 4) 0, Call (Write 0x1001 [0, 0, 0, 0] 4) 0,
                      Call (DefineSpace 0x1002 0x1 8) 0,
                      Call (Write 0x1002 [0, 0, 0, 0, 0x47, 0x52, 0x57, 0x4C] 8) 0,
                      Call (DefineSpace 0x1004 0x8001 4) 0, Call (Write 0x1004 [0, 0, 0, 0] 4) 0,
                      Call (DefineSpace 0x1005 0x8001 4) 0, Call (Write 0x1005 [0, 0, 0, 0] 4) 0,
                      Call (DefineSpace 0x1006 0x8001 4) 0, Call (Write 0x1006 [0, 0, 0, 0] 4) 0,
                      Call (DefineSpace 0x1003 0x8001 4) 0],
             tpm = provisioned [0, 0, 0, 0, 0x47, 0x52, 0x57, 0x4C] [0, 0, 0, 0] [0, 0, 0, 0] [] \<rparr>)"
    by (simp add: InitializeSpaces_def InitializeKernelVersionsSpaces_def SafeWrite_def
        rof_defs bytes_of_uint32_def tlcl_defs sim_defs unprovisioned_def replicate_4 replicate_8)
  have distinct: "TPM_IS_INITIALIZED_NV_INDEX vboot \<notin>
     {FIRMWARE_VERSIONS_NV_INDEX vboot, KERNEL_VERSIONS_NV_INDEX vboot,
      KERNEL_VERSIONS_BACKUP_NV_INDEX vboot, KERNEL_MUST_USE_BACKUP_NV_INDEX vboot,
      DEVELOPER_MODE_NV_INDEX vboot}"
    by (simp add: vboot_def)
  from InitializeSpaces_tombstone_last [OF distinct, of "sim_device vboot" "boot (unprovisioned [])"]
  obtain evs where evs: "trace (snd (InitializeSpaces vboot (sim_device vboot) (boot (unprovisioned []))))
      = trace (boot (unprovisioned [])) @ evs"
    and imp: "(\<exists>p n r. Call (DefineSpace (TPM_IS_INITIALIZED_NV_INDEX vboot) p n) r \<in> set evs) \<longrightarrow>
        (\<exists>pre. evs = pre @ [Call (DefineSpace (TPM_IS_INITIALIZED_NV_INDEX vboot)
                                (TPM_NV_PER_GLOBALLOCK vboot OR TPM_NV_PER_PPWRITE vboot) 4)
                              (fst (InitializeSpaces vboot (sim_device vboot) (boot (unprovisioned []))))] \<and>
           defined_and_written vboot (DEVELOPER_MODE_NV_INDEX vboot)
             (TPM_NV_PER_GLOBALLOCK vboot OR TPM_NV_PER_PPWRITE vboot) (bytes_of_uint32 0) 4 pre)"
    by blast
  from evs run have e: "evs = [Call SetNvLocked 0,
                      Call (DefineSpace 0x1001 0x8001 4) 0, Call (Write 0x1001 [0, 0, 0, 0] 4) 0,
                      Call (DefineSpace 0x1002 0x1 8) 0,
                      Call (Write 0x1002 [0, 0, 0, 0, 0x47, 0x52, 0x57, 0x4C] 8) 0,
                      Call (DefineSpace 0x1004 0x8001 4) 0, Call (Write 0x1004 [0, 0, 0, 0] 4) 0,
                      Call (DefineSpace 0x1005 0x8001 4) 0, Call (Write 0x1005 [0, 0, 0, 0] 4) 0,
                      Call (DefineSpace 0x1006 0x8001 4) 0, Call (Write 0x1006 [0, 0, 0, 0] 4) 0,
                      Call (DefineSpace 0x1003 0x8001 4) 0]"
    by (simp add: boot_def)
  have "\<exists>p n r. Call (DefineSpace (TPM_IS_INITIALIZED_NV_INDEX vboot) p n) r \<in> set evs"
    unfolding e by (simp add: vboot_def)
  with imp obtain pre where
    "evs = pre @ [Call (DefineSpace (TPM_IS_INITIALIZED_NV_INDEX vboot)
                                (TPM_NV_PER_GLOBALLOCK vboot OR TPM_NV_PER_PPWRITE vboot) 4)
                              (fst (InitializeSpaces vboot (sim_device vboot) (boot (unprovisioned []))))]"
    "defined_and_written vboot (DEVELOPER_MODE_NV_INDEX vboot)
             (TPM_NV_PER_GLOBALLOCK vboot OR TPM_NV_PER_PPWRITE vboot) (bytes_of_uint32 0) 4 pre"
    by blast
  with e run show ?thesis
    by (simp add: vboot_def bytes_of_uint32_def)
qed

subsection \<open>GetSpacesInitialized\<close>

text \<open>
  C10. \<open>GetSpacesInitialized\<close> makes one call, the read of \<open>TPM_IS_INITIALIZED\<close>. When
  the read succeeds it returns success with \<open>*initialized\<close> set to 1; when the read
  fails with BadIndex it returns success with \<open>*initialized\<close> set to 0; for every other
  status of the read it returns that status with \<open>*initialized\<close> as it was.
\<close>

theorem GetSpacesInitialized_cases:
  "(case TlclRead dev (TPM_IS_INITIALIZED_NV_INDEX c) 4 st of
      ((result, space_holder), st') \<Rightarrow>
        (result = TPM_SUCCESS c \<longrightarrow>
           GetSpacesInitialized c dev initialized st = ((TPM_SUCCESS c, 1), st')) \<and>
        (result \<noteq> TPM_SUCCESS c \<and> result = TPM_E_BADINDEX c \<longrightarrow>
           GetSpacesInitialized c dev initialized st = ((TPM_SUCCESS c, 0), st')) \<and>
        (result \<noteq> TPM_SUCCESS c \<and> result \<noteq> TPM_E_BADINDEX c \<longrightarrow>
           GetSpacesInitialized c dev initialized st = ((result, initialized), st')))"
  by (simp add: GetSpacesInitialized_def split: prod.splits)

theorem GetSpacesInitialized_cases_witness:
  "GetSpacesInitialized vboot (sim_device vboot) 5
       (boot (provisioned [0, 0, 0, 0, 0x47, 0x52, 0x57, 0x4C] [0, 0, 0, 0] [0, 0, 0, 0] []))
     = ((0, 1), \<lparr> g_rollback_recovery_mode = 0, trace = [Call (Read 0x1003 4) 0],
                  tpm = provisioned [0, 0, 0, 0, 0x47, 0x52, 0x57, 0x4C] [0, 0, 0, 0] [0, 0, 0, 0] [] \<rparr>) \<and>
   GetSpacesInitialized vboot (sim_device vboot) 5 (boot (unprovisioned []))
     = ((0, 0), \<lparr> g_rollback_recovery_mode = 0, trace = [Call (Read 0x1003 4) 2],
                  tpm = unprovisioned [] \<rparr>) \<and>
   GetSpacesInitialized vboot (sim_device vboot) 5 (boot (unprovisioned [7]))
     = ((7, 5), \<lparr> g_rollback_recovery_mode = 0, trace = [Call (Read 0x1003 4) 7],
                  tpm = unprovisioned [] \<rparr>)"
  using
    GetSpacesInitialized_cases [where dev = "sim_device vboot" and c = vboot
      and initialized = 5 and st =
      "boot (provisioned [0, 0, 0, 0, 0x47, 0x52, 0x57, 0x4C] [0, 0, 0, 0] [0, 0, 0, 0] [])"]
    GetSpacesInitialized_cases [where dev = "sim_device vboot" and c = vboot
      and initialized = 5 and st = "boot (unprovisioned [])"]
    GetSpacesInitialized_cases [where dev = "sim_device vboot" and c = vboot
      and initialized = 5 and st = "boot (unprovisioned [7])"]
  by (simp add: tlcl_defs sim_defs unprovisioned_def)

end
